theory Spec2Isabelle
  imports Complex_Main "HOL-Library.Word"
begin

unbundle bit_operations_syntax

section \<open>The lighthouse sweep decoder (tools/decodeV2.py)\<close>

text \<open>
  A shallow embedding of \<^verbatim>\<open>tools/decodeV2.py\<close>. Python integers are \<^typ>\<open>int\<close>,
  \<^verbatim>\<open>None\<close>-able attributes are \<^typ>\<open>'a option\<close>, classes are records, methods take
  the object as their last argument and return it updated, and every exception the
  interpreter can raise on the modelled types is a value of \<open>error\<close>.
  Python floats are modelled as \<^typ>\<open>real\<close>: rounding is not part of the model.
  A parameter whose Python name is also an attribute name carries a prime.
\<close>

subsection \<open>Errors and list indexing\<close>

datatype error = IndexError | AttributeError | TypeError

text \<open>Python's \<^verbatim>\<open>xs[i]\<close>: a negative index counts from the end, anything else raises.\<close>

definition py_index :: "'a list \<Rightarrow> int \<Rightarrow> nat option" where
  "py_index xs i =
     (if 0 \<le> i \<and> i < int (length xs) then Some (nat i)
      else if - int (length xs) \<le> i \<and> i < 0 then Some (nat (int (length xs) + i))
      else None)"

definition list_get :: "'a list \<Rightarrow> int \<Rightarrow> error + 'a" where
  "list_get xs i = (case py_index xs i of None \<Rightarrow> Inl IndexError | Some j \<Rightarrow> Inr (xs ! j))"

subsection \<open>Angle model and timestamp arithmetic\<close>

text \<open>\<^verbatim>\<open>math.radians\<close>.\<close>

definition radians :: "real \<Rightarrow> real" where
  "radians x = x * (pi / 180)"

definition calculateAE :: "real \<Rightarrow> real \<Rightarrow> real \<times> real" where
  "calculateAE firstBeam secondBeam =
     (let azimuth = ((firstBeam + secondBeam) / 2) - pi;
          p = radians 60;
          beta = (secondBeam - firstBeam) - radians 120;
          elevation = arctan (sin (beta / 2) / tan (p / 2))
      in (azimuth, elevation))"

definition ts_sub :: "int \<Rightarrow> int \<Rightarrow> int" where
  "ts_sub a b = (a - b) AND 0x00ffffff"

definition ts_add :: "int \<Rightarrow> int \<Rightarrow> int" where
  "ts_add a b = (a + b) AND 0x00ffffff"

definition PERIODS :: "real list" where
  "PERIODS = [959000 / 2, 957000 / 2,
              953000 / 2, 949000 / 2,
              947000 / 2, 943000 / 2,
              941000 / 2, 939000 / 2,
              937000 / 2, 929000 / 2,
              919000 / 2, 911000 / 2,
              907000 / 2, 901000 / 2,
              893000 / 2, 887000 / 2]"

subsection \<open>SweepData and SweepBlock\<close>

record SweepData =
  ts :: int
  width :: int
  offset :: int
  channel :: "int option"
  slow_bit :: "int option"

definition SweepData_init ::
  "int \<Rightarrow> int \<Rightarrow> int \<Rightarrow> int option \<Rightarrow> int option \<Rightarrow> SweepData" where
  "SweepData_init ts' width' offset' channel' slow_bit' =
     \<lparr>SweepData.ts = ts', width = width', offset = offset',
      SweepData.channel = channel', SweepData.slow_bit = slow_bit'\<rparr>"

text \<open>
  \<open>offset_sensor\<close> is a reference to one of the objects in \<open>sensors\<close>. The object it
  names is not written to after the reference is taken (its offset is nonzero, so the
  back-fill loop skips it), so the record holds its value.
\<close>

record SweepBlock =
  sensors :: "SweepData option list"
  channel :: "int option"
  ts :: "int option"
  is_valid :: bool
  offset_sensor :: "SweepData option"
  slow_bit :: "int option"

definition SweepBlock_init :: SweepBlock where
  "SweepBlock_init =
     \<lparr>sensors = [None, None, None, None], channel = None, ts = None,
      is_valid = False, offset_sensor = None, slow_bit = None\<rparr>"

definition SweepBlock_push ::
  "int \<Rightarrow> int \<Rightarrow> int \<Rightarrow> int \<Rightarrow> int option \<Rightarrow> int option \<Rightarrow> SweepBlock
     \<Rightarrow> error + (bool \<times> SweepBlock)" where
  "SweepBlock_push sensor ts' width' offset' channel' slow_bit' self =
     (case py_index (sensors self) sensor of
        None \<Rightarrow> Inl IndexError
      | Some i \<Rightarrow>
          if sensors self ! i \<noteq> None then Inr (False, self)
          else Inr (True, self\<lparr>sensors := (sensors self)
                 [i := Some (SweepData_init ts' width' offset' channel' slow_bit')]\<rparr>))"

text \<open>The loops of \<^verbatim>\<open>SweepBlock.process\<close>, in the order of the source.\<close>

primrec all_present :: "SweepData option list \<Rightarrow> bool" where
  "all_present [] = True"
| "all_present (sensor # rest) = (if sensor = None then False else all_present rest)"

text \<open>
  The channel loop: the running \<open>channel_count\<close>, \<open>self.channel\<close> and \<open>self.slow_bit\<close>
  are threaded through; the first component is \<open>False\<close> where the source returns.
\<close>

primrec channel_loop ::
  "SweepData list \<Rightarrow> nat \<Rightarrow> int option \<Rightarrow> int option
     \<Rightarrow> bool \<times> nat \<times> int option \<times> int option" where
  "channel_loop [] channel_count ch sb = (True, channel_count, ch, sb)"
| "channel_loop (sensor # rest) channel_count ch sb =
     (case SweepData.channel sensor of
        None \<Rightarrow> channel_loop rest channel_count ch sb
      | Some c \<Rightarrow>
          let channel_count1 = channel_count + 1;
              ch1 = (if ch = None then Some c else ch);
              sb1 = (if ch = None then SweepData.slow_bit sensor else sb)
          in if Some c \<noteq> ch1 then (False, channel_count1, ch1, sb1)
             else channel_loop rest channel_count1 ch1 sb1)"

primrec offset_loop :: "SweepData list \<Rightarrow> SweepData option \<Rightarrow> bool \<times> SweepData option" where
  "offset_loop [] os = (True, os)"
| "offset_loop (sensor # rest) os =
     (if offset sensor \<noteq> 0
      then (if os \<noteq> None then (False, os) else offset_loop rest (Some sensor))
      else offset_loop rest os)"

definition backfill :: "SweepData \<Rightarrow> SweepData \<Rightarrow> SweepData" where
  "backfill os sensor =
     (if offset sensor = 0
      then (let ts_delta = ts_sub (SweepData.ts sensor) (SweepData.ts os)
            in sensor\<lparr>offset := ts_add (offset os) ts_delta\<rparr>)
      else sensor)"

text \<open>\<^verbatim>\<open>not self.ts\<close> holds for \<^verbatim>\<open>None\<close> and for \<^verbatim>\<open>0\<close>.\<close>

primrec ts_loop :: "SweepData list \<Rightarrow> int option \<Rightarrow> int option" where
  "ts_loop [] t = t"
| "ts_loop (sensor # rest) t =
     (let t1 = (case t of None \<Rightarrow> SweepData.ts sensor
                | Some v \<Rightarrow> if v = 0 then SweepData.ts sensor else v);
          t2 = (if SweepData.ts sensor < t1 then SweepData.ts sensor else t1)
      in ts_loop rest (Some t2))"

definition process :: "SweepBlock \<Rightarrow> bool \<times> SweepBlock" where
  "process self =
     (if \<not> all_present (sensors self) then (False, self)
      else
        let ss = map the (sensors self);
            (ok, channel_count, ch, sb) = channel_loop ss 0 (channel self) (slow_bit self);
            self1 = self\<lparr>channel := ch, slow_bit := sb\<rparr>
        in if \<not> ok then (False, self1)
           else if channel_count \<noteq> 3 then (False, self1)
           else
             let ss2 = map (\<lambda>sensor. sensor\<lparr>SweepData.channel := ch,
                                                SweepData.slow_bit := sb\<rparr>) ss;
                 self2 = self1\<lparr>sensors := map Some ss2\<rparr>;
                 (ok2, os) = offset_loop ss2 None;
                 self3 = self2\<lparr>offset_sensor := os\<rparr>
             in if \<not> ok2 then (False, self3)
                else (case os of
                        None \<Rightarrow> (False, self3)
                      | Some ref \<Rightarrow>
                          let ss3 = map (backfill ref) ss2
                          in (True, self3\<lparr>sensors := map Some ss3,
                                          ts := ts_loop ss3 (ts self3),
                                          is_valid := True\<rparr>)))"

subsection \<open>Angles and BaseStation\<close>

record Angles =
  data :: "(real \<times> real) option list"
  channel :: int

definition Angles_init :: "int \<Rightarrow> Angles" where
  "Angles_init channel' = \<lparr>data = [None, None, None, None], channel = channel'\<rparr>"

text \<open>\<^verbatim>\<open>Angles.set\<close> is only called with \<open>sensor\<close> from \<^verbatim>\<open>range(4)\<close>.\<close>

definition Angles_set :: "nat \<Rightarrow> real \<Rightarrow> real \<Rightarrow> Angles \<Rightarrow> Angles" where
  "Angles_set sensor azimuth elevation self =
     self\<lparr>data := (data self)[sensor := Some (azimuth, elevation)]\<rparr>"

record BaseStation =
  channel :: int
  prev_block :: "SweepBlock option"

definition BaseStation_init :: "int \<Rightarrow> BaseStation" where
  "BaseStation_init channel' = \<lparr>channel = channel', prev_block = None\<rparr>"

text \<open>
  \<^verbatim>\<open>blk.sensors[i].offset\<close>: IndexError past the end of the list, AttributeError on an
  empty slot.
\<close>

definition sensor_offset :: "SweepBlock \<Rightarrow> int \<Rightarrow> error + int" where
  "sensor_offset blk i =
     (case list_get (sensors blk) i of
        Inl e \<Rightarrow> Inl e
      | Inr None \<Rightarrow> Inl AttributeError
      | Inr (Some sensor) \<Rightarrow> Inr (offset sensor))"

text \<open>\<^verbatim>\<open>ts_sub(b.ts, a.ts)\<close> raises TypeError when a block has no timestamp yet.\<close>

definition is_second_sweep :: "SweepBlock \<Rightarrow> SweepBlock \<Rightarrow> error + bool" where
  "is_second_sweep a b =
     (case sensor_offset a 0 of
        Inl e \<Rightarrow> Inl e
      | Inr offset_a \<Rightarrow>
         (case sensor_offset b 0 of
            Inl e \<Rightarrow> Inl e
          | Inr offset_b \<Rightarrow>
              if offset_a > offset_b then Inr False
              else (case (ts b, ts a) of
                      (Some ts_b, Some ts_a) \<Rightarrow>
                        (let dt = ts_sub ts_b ts_a
                         in if dt > 220000 then Inr False else Inr True)
                    | _ \<Rightarrow> Inl TypeError)))"

text \<open>
  The body of the loop of \<^verbatim>\<open>BaseStation.process\<close> for one \<open>i\<close>, and the loop over
  \<^verbatim>\<open>range(4)\<close>. The periods are nonzero, so the division does not raise.
\<close>

definition process_sensor ::
  "nat \<Rightarrow> SweepBlock \<Rightarrow> SweepBlock \<Rightarrow> BaseStation \<Rightarrow> Angles \<Rightarrow> error + Angles" where
  "process_sensor i a b self result =
     (case sensor_offset a (int i) of
        Inl e \<Rightarrow> Inl e
      | Inr offset0 \<Rightarrow>
         (case sensor_offset b (int i) of
            Inl e \<Rightarrow> Inl e
          | Inr offset1 \<Rightarrow>
             (case list_get PERIODS (BaseStation.channel self) of
                Inl e \<Rightarrow> Inl e
              | Inr period \<Rightarrow>
                  let firstBeam = (real_of_int offset0 / period) * 2 * pi;
                      secondBeam = (real_of_int offset1 / period) * 2 * pi;
                      (azimuth, elevation) = calculateAE firstBeam secondBeam
                  in Inr (Angles_set i azimuth elevation result))))"

primrec process_loop ::
  "nat list \<Rightarrow> SweepBlock \<Rightarrow> SweepBlock \<Rightarrow> BaseStation \<Rightarrow> Angles \<Rightarrow> error + Angles" where
  "process_loop [] a b self result = Inr result"
| "process_loop (i # rest) a b self result =
     (case process_sensor i a b self result of
        Inl e \<Rightarrow> Inl e
      | Inr result1 \<Rightarrow> process_loop rest a b self result1)"

definition BaseStation_process ::
  "SweepBlock \<Rightarrow> SweepBlock \<Rightarrow> BaseStation \<Rightarrow> error + Angles" where
  "BaseStation_process a b self =
     process_loop [0, 1, 2, 3] a b self (Angles_init (BaseStation.channel self))"

text \<open>
  \<^verbatim>\<open>BaseStation.push\<close> returns the result, what it printed, and the tracker. An
  exception leaves the tracker as it was: \<open>prev_block\<close> is assigned after the calls
  that can raise.
\<close>

definition BaseStation_push ::
  "SweepBlock \<Rightarrow> BaseStation \<Rightarrow> error + (Angles option \<times> string list \<times> BaseStation)" where
  "BaseStation_push blk self =
     (if SweepBlock.channel blk \<noteq> Some (BaseStation.channel self)
      then Inr (None, [''Wrong channel!''], self)
      else (case prev_block self of
              Some prev \<Rightarrow>
                (case is_second_sweep prev blk of
                   Inl e \<Rightarrow> Inl e
                 | Inr True \<Rightarrow>
                     (case BaseStation_process prev blk self of
                        Inl e \<Rightarrow> Inl e
                      | Inr result \<Rightarrow> Inr (Some result, [], self\<lparr>prev_block := None\<rparr>))
                 | Inr False \<Rightarrow> Inr (None, [], self\<lparr>prev_block := Some blk\<rparr>))
            | None \<Rightarrow> Inr (None, [], self\<lparr>prev_block := Some blk\<rparr>)))"

subsection \<open>PulseProcessor\<close>

record PulseProcessor =
  block :: "SweepBlock option"
  latest_pulse :: int

definition PulseProcessor_init :: PulseProcessor where
  "PulseProcessor_init = \<lparr>block = None, latest_pulse = 0\<rparr>"

text \<open>
  \<^verbatim>\<open>PulseProcessor.push\<close> returns the result (or the exception raised by the slot
  access), what it printed, and the processor: \<open>latest_pulse\<close> and \<open>block\<close> are
  assigned before the slot access, so they keep their new values when it raises.
\<close>

definition PulseProcessor_push ::
  "int \<Rightarrow> int \<Rightarrow> int \<Rightarrow> int \<Rightarrow> int option \<Rightarrow> int option \<Rightarrow> PulseProcessor
     \<Rightarrow> (error + SweepBlock option) \<times> string list \<times> PulseProcessor" where
  "PulseProcessor_push sensor ts' width' offset' channel' slow_bit' self =
     (let delta = ts_sub ts' (latest_pulse self);
          (result, self1) =
            (if delta > 10000
             then (case block self of
                     Some blk \<Rightarrow>
                       (let (ok, blk1) = process blk
                        in (if ok then Some blk1 else None, self\<lparr>block := None\<rparr>))
                   | None \<Rightarrow> (None, self))
             else (None, self));
          self2 = self1\<lparr>latest_pulse := ts'\<rparr>;
          blk0 = (case block self2 of None \<Rightarrow> SweepBlock_init | Some blk \<Rightarrow> blk);
          self3 = self2\<lparr>block := Some blk0\<rparr>
      in case SweepBlock_push sensor ts' width' offset' channel' slow_bit' blk0 of
           Inl e \<Rightarrow> (Inl e, [], self3)
         | Inr (True, blk2) \<Rightarrow> (Inr result, [], self3\<lparr>block := Some blk2\<rparr>)
         | Inr (False, blk2) \<Rightarrow> (Inr result, [''Drop block''], self3\<lparr>block := None\<rparr>))"

subsection \<open>The frame loop of the script\<close>

text \<open>
  \<^verbatim>\<open>struct.unpack("<I", bs)[0]\<close>: the little-endian value of a byte string. The script
  calls it on three bytes of the frame followed by a zero byte.
\<close>

primrec unpack_I :: "8 word list \<Rightarrow> int" where
  "unpack_I [] = 0"
| "unpack_I (b # bs) = uint b + 256 * unpack_I bs"

text \<open>
  The state of the script after synchronisation: the pulse processor and the sixteen
  base stations, with two logs: every block \<^verbatim>\<open>pulse_processor.push\<close> has returned, and
  every \<open>Angles\<close> object that was dumped.
\<close>

record script_state =
  pulse_processor :: PulseProcessor
  base_stations :: "BaseStation list"
  pushed_blocks :: "SweepBlock list"
  dumped :: "Angles list"

definition script_init :: script_state where
  "script_init =
     \<lparr>pulse_processor = PulseProcessor_init,
      base_stations = map (\<lambda>i. BaseStation_init (int i)) [0 ..< 16],
      pushed_blocks = [],
      dumped = []\<rparr>"

text \<open>
  The fields the loop body reads from one 12-byte \<open>reading\<close>: sensor, timestamp,
  width, offset (rescaled to the 24 MHz clock), channel, slow bit, and the raw
  \<open>offset_6\<close> that marks a sync frame. \<open>beam_word\<close> is unpacked and not used.
\<close>

definition decode_frame ::
  "8 word list \<Rightarrow> int \<times> int \<times> int \<times> int \<times> int option \<times> int option \<times> int" where
  "decode_frame reading =
     (let timestamp = unpack_I (drop 9 reading @ [0]);
          beam_word = unpack_I (take 3 (drop 6 reading) @ [0]);
          offset_6 = unpack_I (take 3 (drop 3 reading) @ [0]);
          first_word = unpack_I (take 3 reading @ [0]);
          offset' = offset_6 * 4;
          sensor = first_word AND 0x03;
          width' = (drop_bit 8 first_word) AND 0xffff;
          nPoly_ok = ((drop_bit 7 first_word) AND 0x01 = 0);
          (channel', slow_bit') =
            (if nPoly_ok
             then (let identity = (drop_bit 2 first_word) AND 0x1f
                   in (Some (drop_bit 1 identity), Some (identity AND 1)))
             else (None, None))
      in (sensor, timestamp, width', offset', channel', slow_bit', offset_6))"

text \<open>
  The body of the \<^verbatim>\<open>while\<close> loop for one 12-byte \<open>reading\<close>. The first component is
  the exception that ends the script, if one is raised.
\<close>

definition main_step :: "8 word list \<Rightarrow> script_state \<Rightarrow> error option \<times> script_state" where
  "main_step reading st =
     (case decode_frame reading of
        (sensor, timestamp, width', offset', channel', slow_bit', offset_6) \<Rightarrow>
         if offset_6 = 0xffffff then (None, st)
         else
           (case PulseProcessor_push sensor timestamp width' offset' channel' slow_bit'
                   (pulse_processor st) of
              (Inl e, out, pp) \<Rightarrow> (Some e, st\<lparr>pulse_processor := pp\<rparr>)
            | (Inr None, out, pp) \<Rightarrow> (None, st\<lparr>pulse_processor := pp\<rparr>)
            | (Inr (Some blk), out, pp) \<Rightarrow>
                (let st1 = st\<lparr>pulse_processor := pp,
                               pushed_blocks := pushed_blocks st @ [blk]\<rparr>
                 in case SweepBlock.channel blk of
                      None \<Rightarrow> (Some TypeError, st1)
                    | Some c \<Rightarrow>
                       (case py_index (base_stations st1) c of
                          None \<Rightarrow> (Some IndexError, st1)
                        | Some j \<Rightarrow>
                           (case BaseStation_push blk (base_stations st1 ! j) of
                              Inl e \<Rightarrow> (Some e, st1)
                            | Inr (angles, out2, bs) \<Rightarrow>
                                (let st2 = st1\<lparr>base_stations := (base_stations st1)[j := bs]\<rparr>
                                 in (None, case angles of
                                             None \<Rightarrow> st2
                                           | Some a \<Rightarrow> st2\<lparr>dumped := dumped st2 @ [a]\<rparr>)))))))"

text \<open>
  The loop over the chunks that successive \<^verbatim>\<open>src.read(12)\<close> calls return; it ends
  at the first chunk that is not 12 bytes long.
\<close>

fun main_loop :: "8 word list list \<Rightarrow> script_state \<Rightarrow> error option \<times> script_state" where
  "main_loop [] st = (None, st)"
| "main_loop (reading # rest) st =
     (if length reading \<noteq> 12 then (None, st)
      else (case main_step reading st of
              (Some e, st1) \<Rightarrow> (Some e, st1)
            | (None, st1) \<Rightarrow> main_loop rest st1))"

subsection \<open>Predicates on sensor slots\<close>

text \<open>
  A slot carries a decoded identity when it is filled and its channel is not
  \<^verbatim>\<open>None\<close>; it carries an offset when it is filled and its offset is nonzero (the
  test \<^verbatim>\<open>if sensor.offset\<close> of the source).
\<close>

definition decoded :: "SweepData option \<Rightarrow> bool" where
  "decoded s = (case s of None \<Rightarrow> False | Some d \<Rightarrow> SweepData.channel d \<noteq> None)"

definition has_offset :: "SweepData option \<Rightarrow> bool" where
  "has_offset s = (case s of None \<Rightarrow> False | Some d \<Rightarrow> offset d \<noteq> 0)"

text \<open>
  A block is filled when its four slots hold sensors, and finalized when it is filled,
  marked valid and carries a timestamp: what a successful \<open>process\<close> leaves behind
  (lemma \<open>process_finalized\<close>).
\<close>

definition filled :: "SweepBlock \<Rightarrow> bool" where
  "filled b = (length (sensors b) = 4 \<and> all_present (sensors b))"

definition finalized :: "SweepBlock \<Rightarrow> bool" where
  "finalized b = (is_valid b \<and> filled b \<and> SweepBlock.ts b \<noteq> None)"

subsection \<open>The angle formula of the specification\<close>

text \<open>
  The formula as the specification words it, with the constants \<open>2\<pi>/3\<close> and \<open>\<pi>/6\<close>
  written out, for one sensor slot: \<open>firstBeam\<close> and \<open>secondBeam\<close> are the offsets
  divided by the period, times \<open>2\<pi>\<close>; the result is the pair (azimuth, elevation).
  It is compared with \<open>calculateAE\<close> and \<open>BaseStation_process\<close>, which follow the source.
\<close>

definition spec_angle_pair :: "int \<Rightarrow> int \<Rightarrow> real \<Rightarrow> real \<times> real" where
  "spec_angle_pair offset0 offset1 period =
     (let firstBeam = (real_of_int offset0 / period) * (2 * pi);
          secondBeam = (real_of_int offset1 / period) * (2 * pi)
      in ((firstBeam + secondBeam) / 2 - pi,
          arctan (sin (((secondBeam - firstBeam) - 2 * pi / 3) / 2) / tan (pi / 6))))"

subsection \<open>Invariants of the frame loop\<close>

text \<open>
  A channel is in range when it is \<^verbatim>\<open>None\<close> or one of 0..15. An open block (the one
  the pulse processor is filling) has four slots, no resolved channel yet, and channels in
  range in its filled slots. A block is valid when it is marked valid, its four slots are
  filled, every sensor carries the block's channel and slow bit, the block's channel
  is one of 0..15, and its offsets are resolved.

  The offsets of a block are resolved when its \<open>offset_sensor\<close> is one of its sensors
  and has a nonzero offset, and every other sensor's offset is the one the back-fill
  computes from it: \<open>ts_add\<close> of the reference offset and the timestamp delta
  \<open>ts_sub\<close> to the reference sensor. Such an offset lies in \<open>0 ..< 2^24\<close> and can be
  0, the value that \<^verbatim>\<open>if sensor.offset\<close> reads as no offset.
\<close>

definition chan_ok :: "int option \<Rightarrow> bool" where
  "chan_ok ch = (case ch of None \<Rightarrow> True | Some c \<Rightarrow> 0 \<le> c \<and> c < 16)"

definition slot_ok :: "SweepData option \<Rightarrow> bool" where
  "slot_ok s = (case s of None \<Rightarrow> True | Some d \<Rightarrow> chan_ok (SweepData.channel d))"

definition open_ok :: "SweepBlock \<Rightarrow> bool" where
  "open_ok b = (length (sensors b) = 4 \<and> SweepBlock.channel b = None \<and> list_all slot_ok (sensors b))"

definition pp_inv :: "PulseProcessor \<Rightarrow> bool" where
  "pp_inv pp = (case block pp of None \<Rightarrow> True | Some b \<Rightarrow> open_ok b)"

definition offsets_resolved :: "SweepBlock \<Rightarrow> bool" where
  "offsets_resolved b =
     (case offset_sensor b of
        None \<Rightarrow> False
      | Some ref \<Rightarrow>
          offset ref \<noteq> 0 \<and> Some ref \<in> set (sensors b)
          \<and> list_all (\<lambda>s. s = Some ref
                        \<or> offset (the s) =
                            ts_add (offset ref) (ts_sub (SweepData.ts (the s)) (SweepData.ts ref)))
                (sensors b))"

definition block_valid :: "SweepBlock \<Rightarrow> bool" where
  "block_valid b =
     (is_valid b \<and> length (sensors b) = 4 \<and> all_present (sensors b)
      \<and> list_all (\<lambda>s. SweepData.channel (the s) = SweepBlock.channel b
                    \<and> SweepData.slow_bit (the s) = SweepBlock.slow_bit b) (sensors b)
      \<and> (case SweepBlock.channel b of None \<Rightarrow> False | Some c \<Rightarrow> 0 \<le> c \<and> c < 16)
      \<and> offsets_resolved b)"

definition script_ok :: "script_state \<Rightarrow> bool" where
  "script_ok st =
     (pp_inv (pulse_processor st) \<and> list_all block_valid (pushed_blocks st)
      \<and> length (base_stations st) = 16)"

subsection \<open>Example blocks\<close>

definition ex_block_ok :: SweepBlock where
  "ex_block_ok = SweepBlock_init\<lparr>sensors :=
     [Some (SweepData_init 100 20 400 (Some 3) (Some 1)),
      Some (SweepData_init 104 20 0 (Some 3) (Some 1)),
      Some (SweepData_init 108 20 0 (Some 3) (Some 1)),
      Some (SweepData_init 112 20 0 None None)]\<rparr>"

definition ex_block_slow :: SweepBlock where
  "ex_block_slow = SweepBlock_init\<lparr>sensors :=
     [Some (SweepData_init 100 20 400 (Some 3) (Some 0)),
      Some (SweepData_init 104 20 0 (Some 3) (Some 1)),
      Some (SweepData_init 108 20 0 (Some 3) (Some 0)),
      Some (SweepData_init 112 20 0 None None)]\<rparr>"

definition ex_block_zero_ts :: SweepBlock where
  "ex_block_zero_ts = SweepBlock_init\<lparr>sensors :=
     [Some (SweepData_init 0 20 400 (Some 3) (Some 1)),
      Some (SweepData_init 5 20 0 (Some 3) (Some 1)),
      Some (SweepData_init 7 20 0 (Some 3) (Some 1)),
      Some (SweepData_init 9 20 0 None None)]\<rparr>"

definition ex_block_missing :: SweepBlock where
  "ex_block_missing = SweepBlock_init\<lparr>sensors :=
     [Some (SweepData_init 100 20 400 (Some 3) (Some 1)),
      Some (SweepData_init 104 20 0 (Some 3) (Some 1)),
      Some (SweepData_init 108 20 0 (Some 3) (Some 1)),
      None]\<rparr>"

definition ex_block_two_ids :: SweepBlock where
  "ex_block_two_ids = SweepBlock_init\<lparr>sensors :=
     [Some (SweepData_init 100 20 400 (Some 3) (Some 1)),
      Some (SweepData_init 104 20 0 (Some 3) (Some 1)),
      Some (SweepData_init 108 20 0 None None),
      Some (SweepData_init 112 20 0 None None)]\<rparr>"

definition ex_block_two_offsets :: SweepBlock where
  "ex_block_two_offsets = SweepBlock_init\<lparr>sensors :=
     [Some (SweepData_init 100 20 400 (Some 3) (Some 1)),
      Some (SweepData_init 104 20 404 (Some 3) (Some 1)),
      Some (SweepData_init 108 20 0 (Some 3) (Some 1)),
      Some (SweepData_init 112 20 0 None None)]\<rparr>"

definition ex_block_conflict :: SweepBlock where
  "ex_block_conflict = SweepBlock_init\<lparr>sensors :=
     [Some (SweepData_init 100 20 400 (Some 3) (Some 1)),
      Some (SweepData_init 104 20 0 (Some 4) (Some 1)),
      Some (SweepData_init 108 20 0 (Some 3) (Some 1)),
      Some (SweepData_init 112 20 0 None None)]\<rparr>"

text \<open>
  Three blocks as \<open>process\<close> finalizes them, two trackers holding one of them, two
  pulse processors with an open block, and two frame sequences (four pulses of one sweep
  on channel 3, then a pulse 100000 ticks later).
\<close>

definition ex_block_second :: SweepBlock where
  "ex_block_second = SweepBlock_init\<lparr>sensors :=
     [Some (SweepData_init 100100 20 100400 (Some 3) (Some 1)),
      Some (SweepData_init 100104 20 0 (Some 3) (Some 1)),
      Some (SweepData_init 100108 20 0 (Some 3) (Some 1)),
      Some (SweepData_init 100112 20 0 None None)]\<rparr>"

definition ex_block_third :: SweepBlock where
  "ex_block_third = SweepBlock_init\<lparr>sensors :=
     [Some (SweepData_init 400100 20 400400 (Some 3) (Some 1)),
      Some (SweepData_init 400104 20 0 (Some 3) (Some 1)),
      Some (SweepData_init 400108 20 0 (Some 3) (Some 1)),
      Some (SweepData_init 400112 20 0 None None)]\<rparr>"

definition ex_first :: SweepBlock where
  "ex_first = snd (process ex_block_ok)"

definition ex_second :: SweepBlock where
  "ex_second = snd (process ex_block_second)"

definition ex_third :: SweepBlock where
  "ex_third = snd (process ex_block_third)"

definition ex_station :: BaseStation where
  "ex_station = \<lparr>BaseStation.channel = 3, prev_block = Some ex_first\<rparr>"

definition ex_station_late :: BaseStation where
  "ex_station_late = \<lparr>BaseStation.channel = 3, prev_block = Some ex_second\<rparr>"

definition ex_processor :: PulseProcessor where
  "ex_processor = \<lparr>block = Some ex_block_ok, latest_pulse = 112\<rparr>"

definition ex_processor_bad :: PulseProcessor where
  "ex_processor_bad = \<lparr>block = Some ex_block_missing, latest_pulse = 108\<rparr>"

definition ex_frames :: "8 word list list" where
  "ex_frames =
     [[28, 20, 0, 100, 0, 0, 0, 0, 0, 100, 0, 0],
      [29, 20, 0, 0, 0, 0, 0, 0, 0, 104, 0, 0],
      [30, 20, 0, 0, 0, 0, 0, 0, 0, 108, 0, 0],
      [131, 20, 0, 0, 0, 0, 0, 0, 0, 112, 0, 0],
      [28, 20, 0, 12, 98, 0, 0, 0, 0, 4, 135, 1]]"

definition ex_frames_zero :: "8 word list list" where
  "ex_frames_zero =
     [[28, 20, 0, 100, 0, 0, 0, 0, 0, 0, 0, 0],
      [29, 20, 0, 0, 0, 0, 0, 0, 0, 5, 0, 0],
      [30, 20, 0, 0, 0, 0, 0, 0, 0, 7, 0, 0],
      [131, 20, 0, 0, 0, 0, 0, 0, 0, 9, 0, 0],
      [28, 20, 0, 12, 98, 0, 0, 0, 0, 4, 135, 1]]"

text \<open>
  A sweep on channel 3 whose reference offset is \<open>0x3fffff * 4 = 16777212\<close>: the
  sensor 4 ticks later back-fills to \<open>(16777212 + 4) mod 2^24 = 0\<close>.
\<close>

definition ex_block_wrap :: SweepBlock where
  "ex_block_wrap = SweepBlock_init\<lparr>sensors :=
     [Some (SweepData_init 100 20 16777212 (Some 3) (Some 1)),
      Some (SweepData_init 104 20 0 (Some 3) (Some 1)),
      Some (SweepData_init 108 20 0 (Some 3) (Some 1)),
      Some (SweepData_init 112 20 0 None None)]\<rparr>"

definition ex_wrapped :: SweepBlock where
  "ex_wrapped = snd (process ex_block_wrap)"

definition ex_frames_wrap :: "8 word list list" where
  "ex_frames_wrap =
     [[28, 20, 0, 255, 255, 63, 0, 0, 0, 100, 0, 0],
      [29, 20, 0, 0, 0, 0, 0, 0, 0, 104, 0, 0],
      [30, 20, 0, 0, 0, 0, 0, 0, 0, 108, 0, 0],
      [131, 20, 0, 0, 0, 0, 0, 0, 0, 112, 0, 0],
      [28, 20, 0, 12, 98, 0, 0, 0, 0, 4, 135, 1]]"

lemmas ex_defs = SweepBlock_init_def SweepData_init_def decoded_def has_offset_def

lemmas ex_eval = ex_defs process_def backfill_def ts_sub_def ts_add_def

lemmas script_eval = decode_frame_def main_step_def script_init_def PulseProcessor_init_def
  PulseProcessor_push_def SweepBlock_push_def py_index_def BaseStation_push_def
  BaseStation_init_def ex_eval Let_def

section \<open>Timestamp arithmetic\<close>

lemma mask24: "(16777215 :: int) = mask 24"
  by (simp add: mask_eq_exp_minus_1)

lemma ts_sub_mod: "ts_sub a b = (a - b) mod 2 ^ 24"
  unfolding ts_sub_def mask24 by (simp only: take_bit_eq_mask [symmetric] take_bit_eq_mod)

lemma ts_add_mod: "ts_add a b = (a + b) mod 2 ^ 24"
  unfolding ts_add_def mask24 by (simp only: take_bit_eq_mask [symmetric] take_bit_eq_mod)

text \<open>
  Claim C9. For all 24-bit integers \<open>a\<close> and \<open>b\<close>, subtracting \<open>b\<close> again from
  \<open>ts_add a b\<close> gives \<open>a\<close> back, and \<open>ts_sub\<close> of any two integers lies in
  \<open>0 ..< 2^24\<close>.
\<close>

theorem ts_sub_ts_add_roundtrip:
  assumes "0 \<le> a" "a < 2 ^ 24" "0 \<le> b" "b < 2 ^ 24"
  shows "ts_sub (ts_add a b) b = a \<and> 0 \<le> ts_sub x y \<and> ts_sub x y < 2 ^ 24"
proof -
  have "ts_sub (ts_add a b) b = ((a + b) mod 2 ^ 24 - b) mod 2 ^ 24"
    by (simp only: ts_sub_mod ts_add_mod)
  also have "\<dots> = (a + b - b) mod 2 ^ 24"
    by (rule mod_diff_left_eq)
  also have "\<dots> = a"
    using assms by simp
  finally have "ts_sub (ts_add a b) b = a" .
  moreover have "0 \<le> ts_sub x y" "ts_sub x y < 2 ^ 24"
    by (simp_all add: ts_sub_mod)
  ultimately show ?thesis by simp
qed

theorem ts_sub_ts_add_roundtrip_witness:
  "(0::int) \<le> 16777215 \<and> (16777215::int) < 2 ^ 24 \<and> (0::int) \<le> 5 \<and> (5::int) < 2 ^ 24
   \<and> ts_sub (ts_add 16777215 5) 5 = 16777215
   \<and> 0 \<le> ts_sub 3 10 \<and> ts_sub 3 10 < 2 ^ 24"
  using ts_sub_ts_add_roundtrip [of 16777215 5 3 10] by simp

section \<open>Finalizing a sweep block\<close>

lemma all_present_iff: "all_present xs \<longleftrightarrow> None \<notin> set xs"
  by (induction xs) auto

lemma all_present_map_the: "all_present xs \<Longrightarrow> map Some (map the xs) = xs"
  by (induction xs) (auto split: if_splits)

lemma filter_decoded_map_the:
  "all_present xs \<Longrightarrow>
   length (filter (\<lambda>d. SweepData.channel d \<noteq> None) (map the xs)) = length (filter decoded xs)"
  by (induction xs) (auto simp: decoded_def split: if_splits)

lemma filter_has_offset_map_the:
  "all_present xs \<Longrightarrow>
   filter (\<lambda>d. offset d \<noteq> 0) (map the xs) = map the (filter has_offset xs)"
  by (induction xs) (auto simp: has_offset_def split: if_splits)

subsection \<open>The channel loop\<close>

lemma channel_loop_count:
  "fst (channel_loop ss n ch sb) \<Longrightarrow>
   fst (snd (channel_loop ss n ch sb)) =
     n + length (filter (\<lambda>d. SweepData.channel d \<noteq> None) ss)"
  by (induction ss arbitrary: n ch sb) (auto simp: Let_def split: option.splits)

lemma channel_loop_keeps:
  "fst (channel_loop ss n (Some c) sb) \<Longrightarrow>
   snd (snd (channel_loop ss n (Some c) sb)) = (Some c, sb)"
  by (induction ss arbitrary: n) (auto simp: Let_def split: option.splits)

lemma channel_loop_agree_Some:
  "fst (channel_loop ss n (Some c) sb) \<Longrightarrow>
   \<forall>d \<in> set ss. SweepData.channel d \<noteq> None \<longrightarrow> SweepData.channel d = Some c"
  by (induction ss arbitrary: n) (auto simp: Let_def split: option.splits if_splits)

lemma channel_loop_agree:
  "fst (channel_loop ss n ch sb) \<Longrightarrow>
   \<forall>d \<in> set ss. SweepData.channel d \<noteq> None \<longrightarrow>
      SweepData.channel d = fst (snd (snd (channel_loop ss n ch sb)))"
proof (induction ss arbitrary: n ch sb)
  case Nil
  then show ?case by simp
next
  case (Cons d ss)
  show ?case
  proof (cases "SweepData.channel d")
    case None
    with Cons show ?thesis by simp
  next
    case (Some c)
    define sb1 where "sb1 = (if ch = None then SweepData.slow_bit d else sb)"
    from Some Cons.prems have ch: "ch = None \<or> ch = Some c"
      by (auto simp: Let_def split: if_splits)
    with Some have step: "channel_loop (d # ss) n ch sb = channel_loop ss (n + 1) (Some c) sb1"
      by (auto simp: Let_def sb1_def)
    with Cons.prems have ok: "fst (channel_loop ss (n + 1) (Some c) sb1)"
      by simp
    from channel_loop_keeps [OF ok] channel_loop_agree_Some [OF ok] Some step
    show ?thesis by auto
  qed
qed

lemma channel_loop_ok:
  "\<forall>d \<in> set ss. SweepData.channel d \<noteq> None \<longrightarrow> SweepData.channel d = Some c \<Longrightarrow>
   ch = None \<or> ch = Some c \<Longrightarrow>
   fst (channel_loop ss n ch sb)"
  by (induction ss arbitrary: n ch sb) (auto simp: Let_def split: option.splits)

subsection \<open>The offset loop\<close>

lemma offset_loop_Some:
  "offset_loop ss (Some r) =
     (if filter (\<lambda>d. offset d \<noteq> 0) ss = [] then (True, Some r) else (False, Some r))"
  by (induction ss) auto

lemma offset_loop_None:
  "offset_loop ss None =
     (case filter (\<lambda>d. offset d \<noteq> 0) ss of
        [] \<Rightarrow> (True, None)
      | [r] \<Rightarrow> (True, Some r)
      | r # _ # _ \<Rightarrow> (False, Some r))"
  by (induction ss) (auto simp: offset_loop_Some split: list.splits)

subsection \<open>The shape of a successful \<open>process\<close>\<close>

lemma filter_offset_set_identity:
  "filter (\<lambda>d. offset d \<noteq> 0)
     (map (\<lambda>sensor. sensor\<lparr>SweepData.channel := ch, SweepData.slow_bit := sb\<rparr>) ss) =
   map (\<lambda>sensor. sensor\<lparr>SweepData.channel := ch, SweepData.slow_bit := sb\<rparr>)
     (filter (\<lambda>d. offset d \<noteq> 0) ss)"
  by (induction ss) auto

lemma process_False_valid: "\<not> fst (process b) \<Longrightarrow> is_valid (snd (process b)) = is_valid b"
  by (auto simp: process_def Let_def split: prod.splits option.splits if_splits)

lemma process_True_D:
  assumes "fst (process b)"
  shows "all_present (sensors b)"
    and "fst (channel_loop (map the (sensors b)) 0 (SweepBlock.channel b) (SweepBlock.slow_bit b))"
    and "length (filter (\<lambda>d. SweepData.channel d \<noteq> None) (map the (sensors b))) = 3"
    and "length (filter (\<lambda>d. offset d \<noteq> 0) (map the (sensors b))) = 1"
proof -
  define ss where "ss = map the (sensors b)"
  show ap: "all_present (sensors b)"
    using assms by (auto simp: process_def split: if_splits)
  obtain ok n ch sb where cl:
    "channel_loop ss 0 (SweepBlock.channel b) (SweepBlock.slow_bit b) = (ok, n, ch, sb)"
    by (metis prod_cases4)
  from assms ap cl have ok: "ok" and n: "n = 3"
    by (auto simp: process_def Let_def ss_def [symmetric] split: if_splits)
  from ok cl have clok: "fst (channel_loop ss 0 (SweepBlock.channel b) (SweepBlock.slow_bit b))"
    by simp
  then show "fst (channel_loop (map the (sensors b)) 0 (SweepBlock.channel b) (SweepBlock.slow_bit b))"
    by (simp only: ss_def)
  from channel_loop_count [OF clok] cl n
  have "length (filter (\<lambda>d. SweepData.channel d \<noteq> None) ss) = 3"
    by simp
  then show "length (filter (\<lambda>d. SweepData.channel d \<noteq> None) (map the (sensors b))) = 3"
    by (simp only: ss_def)
  from assms ap cl ok n
  have "fst (offset_loop (map (\<lambda>sensor. sensor\<lparr>SweepData.channel := ch, SweepData.slow_bit := sb\<rparr>) ss)
            None)"
    and "snd (offset_loop (map (\<lambda>sensor. sensor\<lparr>SweepData.channel := ch, SweepData.slow_bit := sb\<rparr>) ss)
            None) \<noteq> None"
    by (auto simp: process_def Let_def ss_def [symmetric] split: if_splits prod.splits option.splits)
  then have "length (filter (\<lambda>d. offset d \<noteq> 0) ss) = 1"
    by (auto simp: offset_loop_None filter_offset_set_identity split: list.splits)
  then show "length (filter (\<lambda>d. offset d \<noteq> 0) (map the (sensors b))) = 1"
    by (simp only: ss_def)
qed

lemma process_eq:
  assumes ap: "all_present (sensors b)"
    and cl: "channel_loop (map the (sensors b)) 0 (SweepBlock.channel b) (SweepBlock.slow_bit b)
               = (True, 3, ch, sb)"
    and off: "filter (\<lambda>d. offset d \<noteq> 0) (map the (sensors b)) = [r]"
    and ss2: "ss2 = map (\<lambda>sensor. sensor\<lparr>SweepData.channel := ch, SweepData.slow_bit := sb\<rparr>)
                 (map the (sensors b))"
    and ref: "ref = r\<lparr>SweepData.channel := ch, SweepData.slow_bit := sb\<rparr>"
  shows "process b =
     (True, b\<lparr>SweepBlock.channel := ch, SweepBlock.slow_bit := sb,
              sensors := map Some (map (backfill ref) ss2),
              offset_sensor := Some ref,
              SweepBlock.ts := ts_loop (map (backfill ref) ss2) (SweepBlock.ts b),
              is_valid := True\<rparr>)"
proof -
  define ss where "ss = map the (sensors b)"
  have ol: "offset_loop (map (\<lambda>sensor. sensor\<lparr>SweepData.channel := ch, SweepData.slow_bit := sb\<rparr>) ss)
              None = (True, Some ref)"
    using off by (simp add: offset_loop_None filter_offset_set_identity ss_def [symmetric] ref)
  show ?thesis
    using ap cl ol
    by (simp add: process_def Let_def ss_def [symmetric] ss2 ref)
qed

lemma filter_single:
  "length (filter P xs) = 1 \<Longrightarrow>
   \<exists>k < length xs. P (xs ! k) \<and> filter P xs = [xs ! k]
      \<and> (\<forall>i < length xs. i \<noteq> k \<longrightarrow> \<not> P (xs ! i))"
proof (induction xs)
  case Nil
  then show ?case by simp
next
  case (Cons x xs)
  show ?case
  proof (cases "P x")
    case True
    with Cons.prems have emp: "filter P xs = []" by simp
    then have none: "\<forall>i < length xs. \<not> P (xs ! i)"
      by (simp add: filter_empty_conv)
    have "P ((x # xs) ! 0) \<and> filter P (x # xs) = [(x # xs) ! 0]
          \<and> (\<forall>i < length (x # xs). i \<noteq> 0 \<longrightarrow> \<not> P ((x # xs) ! i))"
      using True emp none by (auto simp: nth_Cons split: nat.splits)
    then show ?thesis by blast
  next
    case False
    with Cons.prems have "length (filter P xs) = 1" by simp
    from Cons.IH [OF this] obtain k where k: "k < length xs" "P (xs ! k)" "filter P xs = [xs ! k]"
      "\<forall>i < length xs. i \<noteq> k \<longrightarrow> \<not> P (xs ! i)" by blast
    have "Suc k < length (x # xs) \<and> P ((x # xs) ! Suc k) \<and> filter P (x # xs) = [(x # xs) ! Suc k]
          \<and> (\<forall>i < length (x # xs). i \<noteq> Suc k \<longrightarrow> \<not> P ((x # xs) ! i))"
      using False k by (auto simp: nth_Cons split: nat.splits)
    then show ?thesis by blast
  qed
qed

lemma in_map_the: "all_present xs \<Longrightarrow> d \<in> set (map the xs) \<Longrightarrow> Some d \<in> set xs"
  by (induction xs) (auto split: if_splits)

lemma backfill_delta:
  "(ts_add off (ts_sub t1 t0) - off) mod 2 ^ 24 = (t1 - t0) mod 2 ^ 24"
proof -
  have "(ts_add off (ts_sub t1 t0) - off) mod 2 ^ 24
        = ((off + (t1 - t0) mod 2 ^ 24) mod 2 ^ 24 - off) mod 2 ^ 24"
    by (simp only: ts_add_mod ts_sub_mod)
  also have "\<dots> = (off + (t1 - t0) mod 2 ^ 24 - off) mod 2 ^ 24"
    by (rule mod_diff_left_eq)
  also have "\<dots> = (t1 - t0) mod 2 ^ 24"
    by simp
  finally show ?thesis .
qed

text \<open>
  Claim C2. A block with all 4 slots filled, exactly 3 decoded identities that agree, and
  exactly one nonzero offset finalizes: \<open>process\<close> returns \<open>True\<close>, and for each of
  the other 3 sensors the back-filled offset minus the reference offset equals the
  timestamp difference to the reference sensor, modulo \<open>2^24\<close>. The block is as the
  constructor and \<open>push\<close> leave it (no channel resolved yet); agreement on the channel
  is all the proof needs of the identities.
\<close>

theorem process_finalizes:
  assumes len: "length (sensors b) = 4"
    and ap: "None \<notin> set (sensors b)"
    and fresh: "SweepBlock.channel b = None"
    and cnt: "length (filter decoded (sensors b)) = 3"
    and agree: "\<forall>s \<in> set (sensors b). \<forall>t \<in> set (sensors b). decoded s \<and> decoded t \<longrightarrow>
                  SweepData.channel (the s) = SweepData.channel (the t)"
    and off: "length (filter has_offset (sensors b)) = 1"
  shows "fst (process b) \<and>
         (\<exists>k < 4. has_offset (sensors b ! k) \<and>
            (\<forall>i < 4. i \<noteq> k \<longrightarrow>
               (offset (the (sensors (snd (process b)) ! i)) - offset (the (sensors b ! k))) mod 2 ^ 24
               = (SweepData.ts (the (sensors b ! i)) - SweepData.ts (the (sensors b ! k))) mod 2 ^ 24))"
proof -
  define ss where "ss = map the (sensors b)"
  have present: "all_present (sensors b)"
    using ap by (simp add: all_present_iff)
  have n3: "length (filter (\<lambda>d. SweepData.channel d \<noteq> None) ss) = 3"
    using cnt filter_decoded_map_the [OF present] by (simp add: ss_def)
  then obtain d0 where d0: "d0 \<in> set ss" "SweepData.channel d0 \<noteq> None"
    by (metis (mono_tags, lifting) filter_False length_0_conv zero_neq_numeral)
  then obtain c where c: "SweepData.channel d0 = Some c" by blast
  have same: "\<forall>d \<in> set ss. SweepData.channel d \<noteq> None \<longrightarrow> SweepData.channel d = Some c"
  proof (intro ballI impI)
    fix d assume d: "d \<in> set ss" "SweepData.channel d \<noteq> None"
    from d(1) present have "Some d \<in> set (sensors b)"
      unfolding ss_def by (rule in_map_the [rotated])
    moreover from d0(1) present have "Some d0 \<in> set (sensors b)"
      unfolding ss_def by (rule in_map_the [rotated])
    ultimately have "SweepData.channel (the (Some d)) = SweepData.channel (the (Some d0))"
      using agree d(2) d0(2) by (force simp: decoded_def)
    with c show "SweepData.channel d = Some c" by simp
  qed
  have ok: "fst (channel_loop ss 0 (SweepBlock.channel b) (SweepBlock.slow_bit b))"
    using channel_loop_ok [OF same] fresh by simp
  obtain ch sb where cl: "channel_loop ss 0 (SweepBlock.channel b) (SweepBlock.slow_bit b) = (True, 3, ch, sb)"
    using ok channel_loop_count [OF ok] n3
    by (metis add_0 fst_conv prod.collapse)
  from filter_single [OF off] len obtain k where k: "k < 4" "has_offset (sensors b ! k)"
    "filter has_offset (sensors b) = [sensors b ! k]"
    "\<forall>i < 4. i \<noteq> k \<longrightarrow> \<not> has_offset (sensors b ! i)"
    by auto
  define r where "r = the (sensors b ! k)"
  have offr: "filter (\<lambda>d. offset d \<noteq> 0) ss = [r]"
    using filter_has_offset_map_the [OF present] k(3) by (simp add: ss_def r_def)
  define ss2 where "ss2 = map (\<lambda>sensor. sensor\<lparr>SweepData.channel := ch, SweepData.slow_bit := sb\<rparr>) ss"
  define ref where "ref = r\<lparr>SweepData.channel := ch, SweepData.slow_bit := sb\<rparr>"
  have pe: "process b =
     (True, b\<lparr>SweepBlock.channel := ch, SweepBlock.slow_bit := sb,
              sensors := map Some (map (backfill ref) ss2),
              offset_sensor := Some ref,
              SweepBlock.ts := ts_loop (map (backfill ref) ss2) (SweepBlock.ts b),
              is_valid := True\<rparr>)"
    by (rule process_eq [OF present cl [unfolded ss_def] offr [unfolded ss_def]
          ss2_def [unfolded ss_def] ref_def])
  have each: "(offset (the (sensors (snd (process b)) ! i)) - offset r) mod 2 ^ 24
               = (SweepData.ts (the (sensors b ! i)) - SweepData.ts r) mod 2 ^ 24"
    if i: "i < 4" "i \<noteq> k" for i
  proof -
    from i len present have si: "sensors b ! i = Some (ss ! i)"
      by (metis all_present_iff all_present_map_the length_map nth_map ss_def)
    from k(4) i have "\<not> has_offset (sensors b ! i)" by blast
    with si have z: "offset (ss ! i) = 0"
      by (simp add: has_offset_def)
    from i len have "the (sensors (snd (process b)) ! i) = backfill ref (ss2 ! i)"
      by (simp add: pe ss2_def ss_def)
    also from i len have "ss2 ! i = (ss ! i)\<lparr>SweepData.channel := ch, SweepData.slow_bit := sb\<rparr>"
      by (simp add: ss2_def ss_def)
    finally have "offset (the (sensors (snd (process b)) ! i))
                  = ts_add (offset r) (ts_sub (SweepData.ts (ss ! i)) (SweepData.ts r))"
      using z by (simp add: backfill_def ref_def)
    then show ?thesis
      using si backfill_delta [of "offset r" "SweepData.ts (ss ! i)" "SweepData.ts r"] by simp
  qed
  from pe have "fst (process b)" by simp
  moreover have "\<exists>k < 4. has_offset (sensors b ! k) \<and>
            (\<forall>i < 4. i \<noteq> k \<longrightarrow>
               (offset (the (sensors (snd (process b)) ! i)) - offset (the (sensors b ! k))) mod 2 ^ 24
               = (SweepData.ts (the (sensors b ! i)) - SweepData.ts (the (sensors b ! k))) mod 2 ^ 24)"
    using k(1,2) each unfolding r_def by blast
  ultimately show ?thesis by blast
qed

theorem process_finalizes_witness:
  "length (sensors ex_block_ok) = 4
   \<and> None \<notin> set (sensors ex_block_ok)
   \<and> SweepBlock.channel ex_block_ok = None
   \<and> length (filter decoded (sensors ex_block_ok)) = 3
   \<and> map (\<lambda>s. SweepData.channel (the s)) (filter decoded (sensors ex_block_ok))
       = [Some 3, Some 3, Some 3]
   \<and> length (filter has_offset (sensors ex_block_ok)) = 1
   \<and> fst (process ex_block_ok) \<and>
         (\<exists>k < 4. has_offset (sensors ex_block_ok ! k) \<and>
            (\<forall>i < 4. i \<noteq> k \<longrightarrow>
               (offset (the (sensors (snd (process ex_block_ok)) ! i))
                  - offset (the (sensors ex_block_ok ! k))) mod 2 ^ 24
               = (SweepData.ts (the (sensors ex_block_ok ! i))
                  - SweepData.ts (the (sensors ex_block_ok ! k))) mod 2 ^ 24))"
proof -
  have h: "length (sensors ex_block_ok) = 4" "None \<notin> set (sensors ex_block_ok)"
    "SweepBlock.channel ex_block_ok = None" "length (filter decoded (sensors ex_block_ok)) = 3"
    "\<forall>s \<in> set (sensors ex_block_ok). \<forall>t \<in> set (sensors ex_block_ok). decoded s \<and> decoded t \<longrightarrow>
         SweepData.channel (the s) = SweepData.channel (the t)"
    "length (filter has_offset (sensors ex_block_ok)) = 1"
    by (simp_all add: ex_block_ok_def ex_defs)
  have "map (\<lambda>s. SweepData.channel (the s)) (filter decoded (sensors ex_block_ok))
          = [Some 3, Some 3, Some 3]"
    by (simp add: ex_block_ok_def ex_defs)
  with process_finalizes [OF h] h show ?thesis by blast
qed

text \<open>
  Claim C3. A block that misses a sensor slot, or whose number of decoded identities is
  not 3, or whose number of sensors with a nonzero offset is not 1 (none, or two and
  more), fails: \<open>process\<close> returns \<open>False\<close> and leaves \<open>is_valid\<close> as it was.
\<close>

theorem process_rejects:
  assumes "None \<in> set (sensors b) \<or> length (filter decoded (sensors b)) \<noteq> 3
           \<or> length (filter has_offset (sensors b)) \<noteq> 1"
  shows "\<not> fst (process b) \<and> is_valid (snd (process b)) = is_valid b"
proof -
  have "\<not> fst (process b)"
  proof
    assume ok: "fst (process b)"
    note d = process_True_D [OF ok]
    from d(1) have "None \<notin> set (sensors b)" by (simp add: all_present_iff)
    moreover from d(3) filter_decoded_map_the [OF d(1)]
    have "length (filter decoded (sensors b)) = 3" by simp
    moreover from d(4) filter_has_offset_map_the [OF d(1)]
    have "length (filter has_offset (sensors b)) = 1" by simp
    ultimately show False using assms by blast
  qed
  with process_False_valid [of b] show ?thesis by blast
qed

theorem process_rejects_witness:
  "(None \<in> set (sensors ex_block_missing) \<or> length (filter decoded (sensors ex_block_missing)) \<noteq> 3
      \<or> length (filter has_offset (sensors ex_block_missing)) \<noteq> 1)
   \<and> \<not> fst (process ex_block_missing)
   \<and> is_valid (snd (process ex_block_missing)) = is_valid ex_block_missing
   \<and> (None \<in> set (sensors ex_block_two_ids) \<or> length (filter decoded (sensors ex_block_two_ids)) \<noteq> 3
      \<or> length (filter has_offset (sensors ex_block_two_ids)) \<noteq> 1)
   \<and> \<not> fst (process ex_block_two_ids)
   \<and> (None \<in> set (sensors ex_block_two_offsets)
      \<or> length (filter decoded (sensors ex_block_two_offsets)) \<noteq> 3
      \<or> length (filter has_offset (sensors ex_block_two_offsets)) \<noteq> 1)
   \<and> \<not> fst (process ex_block_two_offsets)"
proof -
  have h1: "None \<in> set (sensors ex_block_missing) \<or> length (filter decoded (sensors ex_block_missing)) \<noteq> 3
      \<or> length (filter has_offset (sensors ex_block_missing)) \<noteq> 1"
    by (simp add: ex_block_missing_def ex_defs)
  have h2: "None \<in> set (sensors ex_block_two_ids) \<or> length (filter decoded (sensors ex_block_two_ids)) \<noteq> 3
      \<or> length (filter has_offset (sensors ex_block_two_ids)) \<noteq> 1"
    by (simp add: ex_block_two_ids_def ex_defs)
  have h3: "None \<in> set (sensors ex_block_two_offsets)
      \<or> length (filter decoded (sensors ex_block_two_offsets)) \<noteq> 3
      \<or> length (filter has_offset (sensors ex_block_two_offsets)) \<noteq> 1"
    by (simp add: ex_block_two_offsets_def ex_defs)
  from process_rejects [OF h1] process_rejects [OF h2] process_rejects [OF h3] h1 h2 h3
  show ?thesis by blast
qed

text \<open>
  Claim C4 as stated asks \<open>process\<close> to fail when decoded identities differ in
  \<open>slow_bit\<close>. The source compares channels only: this block, whose sensors 0 and 1
  carry the same channel and different slow bits, finalizes.
\<close>

theorem slow_bit_not_compared:
  "SweepData.channel (the (sensors ex_block_slow ! 0)) = SweepData.channel (the (sensors ex_block_slow ! 1))
   \<and> SweepData.slow_bit (the (sensors ex_block_slow ! 0)) \<noteq> SweepData.slow_bit (the (sensors ex_block_slow ! 1))
   \<and> decoded (sensors ex_block_slow ! 0) \<and> decoded (sensors ex_block_slow ! 1)
   \<and> fst (process ex_block_slow)"
  by (simp add: ex_block_slow_def ex_defs process_def backfill_def)

text \<open>
  Claim C4, amended. A block in which two decoded identities carry different channels
  fails: \<open>process\<close> returns \<open>False\<close> and leaves \<open>is_valid\<close> as it was. So a block
  finalizes only when all decoded identities agree on the channel; the slow bit is not
  compared.
\<close>

theorem process_rejects_channel_conflict:
  assumes "Some d1 \<in> set (sensors b)" "Some d2 \<in> set (sensors b)"
    and "SweepData.channel d1 \<noteq> None" "SweepData.channel d2 \<noteq> None"
    and "SweepData.channel d1 \<noteq> SweepData.channel d2"
  shows "\<not> fst (process b) \<and> is_valid (snd (process b)) = is_valid b"
proof -
  have "\<not> fst (process b)"
  proof
    assume ok: "fst (process b)"
    note d = process_True_D [OF ok]
    have "d1 \<in> set (map the (sensors b))" "d2 \<in> set (map the (sensors b))"
      using assms(1,2) by force+
    with channel_loop_agree [OF d(2)] assms(3,4)
    have "SweepData.channel d1 = SweepData.channel d2" by metis
    with assms(5) show False by contradiction
  qed
  with process_False_valid [of b] show ?thesis by blast
qed

theorem process_rejects_channel_conflict_witness:
  "Some (SweepData_init 100 20 400 (Some 3) (Some 1)) \<in> set (sensors ex_block_conflict)
   \<and> Some (SweepData_init 104 20 0 (Some 4) (Some 1)) \<in> set (sensors ex_block_conflict)
   \<and> SweepData.channel (SweepData_init 100 20 400 (Some 3) (Some 1)) \<noteq> None
   \<and> SweepData.channel (SweepData_init 104 20 0 (Some 4) (Some 1)) \<noteq> None
   \<and> SweepData.channel (SweepData_init 100 20 400 (Some 3) (Some 1))
       \<noteq> SweepData.channel (SweepData_init 104 20 0 (Some 4) (Some 1))
   \<and> \<not> fst (process ex_block_conflict)
   \<and> is_valid (snd (process ex_block_conflict)) = is_valid ex_block_conflict"
proof -
  have h: "Some (SweepData_init 100 20 400 (Some 3) (Some 1)) \<in> set (sensors ex_block_conflict)"
    "Some (SweepData_init 104 20 0 (Some 4) (Some 1)) \<in> set (sensors ex_block_conflict)"
    "SweepData.channel (SweepData_init 100 20 400 (Some 3) (Some 1)) \<noteq> None"
    "SweepData.channel (SweepData_init 104 20 0 (Some 4) (Some 1)) \<noteq> None"
    "SweepData.channel (SweepData_init 100 20 400 (Some 3) (Some 1))
       \<noteq> SweepData.channel (SweepData_init 104 20 0 (Some 4) (Some 1))"
    by (simp_all add: ex_block_conflict_def ex_defs)
  from process_rejects_channel_conflict [OF h] h show ?thesis by blast
qed

section \<open>Finalized blocks\<close>

lemma ts_loop_Some: "ts_loop ss (Some v) \<noteq> None"
  by (induction ss arbitrary: v) (auto simp: Let_def)

lemma ts_loop_nonempty: "ss \<noteq> [] \<Longrightarrow> ts_loop ss t \<noteq> None"
  by (cases ss) (auto simp: Let_def ts_loop_Some)

lemma length_one: "length xs = 1 \<Longrightarrow> \<exists>x. xs = [x]"
  by (cases xs) auto

lemma all_present_nth:
  assumes "all_present xs" "i < length xs"
  shows "xs ! i = Some (the (xs ! i))"
proof -
  from assms(2) have "xs ! i \<in> set xs" by simp
  with assms(1) have "xs ! i \<noteq> None" by (metis all_present_iff)
  then show ?thesis by simp
qed

lemma all_present_map_Some: "all_present (map (Some \<circ> f) xs)"
  by (induction xs) auto

text \<open>A successful \<open>process\<close> on a block of four slots leaves a finalized block.\<close>

lemma process_finalized:
  assumes ok: "fst (process b)" and len: "length (sensors b) = 4"
  shows "finalized (snd (process b))"
proof -
  note d = process_True_D [OF ok]
  obtain n ch sb where cl:
    "channel_loop (map the (sensors b)) 0 (SweepBlock.channel b) (SweepBlock.slow_bit b) = (True, n, ch, sb)"
    using d(2) by (metis fst_conv prod_cases4)
  with channel_loop_count [OF d(2)] d(3) have n: "n = 3" by simp
  from length_one [OF d(4)] obtain r
    where r: "filter (\<lambda>d. offset d \<noteq> 0) (map the (sensors b)) = [r]"
    by blast
  note pe = process_eq [OF d(1) cl [unfolded n] r refl refl]
  have "map the (sensors b) \<noteq> []" using len by auto
  then show ?thesis
    using len by (simp add: pe finalized_def filled_def all_present_map_Some ts_loop_nonempty)
qed

lemma ex_first_eq:
  "ex_first = \<lparr>sensors =
       [Some (SweepData_init 100 20 400 (Some 3) (Some 1)),
        Some (SweepData_init 104 20 404 (Some 3) (Some 1)),
        Some (SweepData_init 108 20 408 (Some 3) (Some 1)),
        Some (SweepData_init 112 20 412 (Some 3) (Some 1))],
     channel = Some 3, ts = Some 100, is_valid = True,
     offset_sensor = Some (SweepData_init 100 20 400 (Some 3) (Some 1)), slow_bit = Some 1\<rparr>"
  by (simp add: ex_first_def ex_block_ok_def ex_eval)

lemma ex_second_eq:
  "ex_second = \<lparr>sensors =
       [Some (SweepData_init 100100 20 100400 (Some 3) (Some 1)),
        Some (SweepData_init 100104 20 100404 (Some 3) (Some 1)),
        Some (SweepData_init 100108 20 100408 (Some 3) (Some 1)),
        Some (SweepData_init 100112 20 100412 (Some 3) (Some 1))],
     channel = Some 3, ts = Some 100100, is_valid = True,
     offset_sensor = Some (SweepData_init 100100 20 100400 (Some 3) (Some 1)), slow_bit = Some 1\<rparr>"
  by (simp add: ex_second_def ex_block_second_def ex_eval)

lemma ex_third_eq:
  "ex_third = \<lparr>sensors =
       [Some (SweepData_init 400100 20 400400 (Some 3) (Some 1)),
        Some (SweepData_init 400104 20 400404 (Some 3) (Some 1)),
        Some (SweepData_init 400108 20 400408 (Some 3) (Some 1)),
        Some (SweepData_init 400112 20 400412 (Some 3) (Some 1))],
     channel = Some 3, ts = Some 400100, is_valid = True,
     offset_sensor = Some (SweepData_init 400100 20 400400 (Some 3) (Some 1)), slow_bit = Some 1\<rparr>"
  by (simp add: ex_third_def ex_block_third_def ex_eval)

section \<open>The angle model\<close>

lemma filled_sensor_offset:
  "filled b \<Longrightarrow> i < 4 \<Longrightarrow> sensor_offset b (int i) = Inr (offset (the (sensors b ! i)))"
  using all_present_nth [of "sensors b" i]
  by (auto simp: filled_def sensor_offset_def list_get_def py_index_def split: option.splits)

lemma PERIODS_get:
  "0 \<le> c \<Longrightarrow> c < 16 \<Longrightarrow> list_get PERIODS c = Inr (PERIODS ! nat c)"
  by (simp add: list_get_def py_index_def PERIODS_def)

lemma radians_120: "radians 120 = 2 * pi / 3"
  by (simp add: radians_def)

lemma radians_60_half: "radians 60 / 2 = pi / 6"
  by (simp add: radians_def)

lemma calculateAE_spec:
  "calculateAE ((real_of_int offset0 / period) * 2 * pi) ((real_of_int offset1 / period) * 2 * pi)
     = spec_angle_pair offset0 offset1 period"
  unfolding calculateAE_def spec_angle_pair_def Let_def radians_120 radians_60_half
  by (simp add: mult.assoc)

lemma PERIODS_nonzero: "n < 16 \<Longrightarrow> PERIODS ! n \<noteq> 0"
proof -
  assume n: "n < 16"
  have "\<forall>x \<in> set PERIODS. x \<noteq> 0" by (simp add: PERIODS_def)
  moreover have "length PERIODS = 16" by (simp add: PERIODS_def)
  with n have "PERIODS ! n \<in> set PERIODS" by (intro nth_mem) simp
  ultimately show ?thesis by blast
qed

lemma tan_pi_6_nonzero: "tan (pi / 6) \<noteq> 0"
  by (simp add: tan_30)

lemma process_sensor_filled:
  assumes "filled a" "filled b" "0 \<le> BaseStation.channel self" "BaseStation.channel self < 16"
    and "i < 4"
  shows "process_sensor i a b self result =
     Inr (result\<lparr>data := (data result)[i := Some (spec_angle_pair (offset (the (sensors a ! i)))
            (offset (the (sensors b ! i))) (PERIODS ! nat (BaseStation.channel self)))]\<rparr>)"
proof -
  have oa: "sensor_offset a (int i) = Inr (offset (the (sensors a ! i)))"
    and ob: "sensor_offset b (int i) = Inr (offset (the (sensors b ! i)))"
    using assms by (simp_all add: filled_sensor_offset)
  have pg: "list_get PERIODS (BaseStation.channel self) = Inr (PERIODS ! nat (BaseStation.channel self))"
    using assms by (simp add: PERIODS_get)
  show ?thesis
    unfolding process_sensor_def oa ob pg
    by (simp only: sum.case Let_def calculateAE_spec)
       (simp add: Angles_set_def split: prod.splits)
qed

lemma BaseStation_process_filled:
  assumes "filled a" "filled b" "0 \<le> BaseStation.channel self" "BaseStation.channel self < 16"
  shows "BaseStation_process a b self =
     Inr \<lparr>data = map (\<lambda>i. Some (spec_angle_pair (offset (the (sensors a ! i)))
                     (offset (the (sensors b ! i))) (PERIODS ! nat (BaseStation.channel self))))
                   [0, 1, 2, 3],
          channel = BaseStation.channel self\<rparr>"
  using assms
  by (simp add: BaseStation_process_def process_sensor_filled Angles_init_def)

text \<open>
  Claim C7. For every pair of blocks with four filled slots and every tracker channel
  in 0..15, \<open>BaseStation.process\<close> returns an \<open>Angles\<close> object of that channel whose
  entry for slot \<open>i\<close> is the pair the specification's formula gives for the two offsets
  of slot \<open>i\<close> and \<open>PERIODS[channel]\<close>: azimuth \<open>(firstBeam + secondBeam)/2 - \<pi>\<close> and
  elevation \<open>atan(sin(((secondBeam - firstBeam) - 2\<pi>/3)/2) / tan(\<pi>/6))\<close>. Neither
  division is by zero. Floats are reals here.
\<close>

theorem angle_model_formula:
  assumes "filled a" "filled b" "0 \<le> BaseStation.channel self" "BaseStation.channel self < 16"
  shows "\<exists>result. BaseStation_process a b self = Inr result
           \<and> Angles.channel result = BaseStation.channel self
           \<and> data result =
               map (\<lambda>i. Some (spec_angle_pair (offset (the (sensors a ! i)))
                     (offset (the (sensors b ! i))) (PERIODS ! nat (BaseStation.channel self))))
                   [0, 1, 2, 3]
           \<and> PERIODS ! nat (BaseStation.channel self) \<noteq> 0 \<and> tan (radians 60 / 2) \<noteq> 0"
proof -
  have "nat (BaseStation.channel self) < 16" using assms(3,4) by simp
  then have "PERIODS ! nat (BaseStation.channel self) \<noteq> 0" by (rule PERIODS_nonzero)
  moreover have "tan (radians 60 / 2) \<noteq> 0"
    unfolding radians_60_half by (rule tan_pi_6_nonzero)
  ultimately show ?thesis
    using BaseStation_process_filled [OF assms] by simp
qed

theorem angle_model_formula_witness:
  "filled ex_first \<and> filled ex_second \<and> 0 \<le> BaseStation.channel ex_station
   \<and> BaseStation.channel ex_station < 16
   \<and> (\<exists>result. BaseStation_process ex_first ex_second ex_station = Inr result
           \<and> Angles.channel result = 3
           \<and> data result =
               [Some (spec_angle_pair 400 100400 (PERIODS ! 3)),
                Some (spec_angle_pair 404 100404 (PERIODS ! 3)),
                Some (spec_angle_pair 408 100408 (PERIODS ! 3)),
                Some (spec_angle_pair 412 100412 (PERIODS ! 3))])"
proof -
  have h: "filled ex_first" "filled ex_second" "0 \<le> BaseStation.channel ex_station"
    "BaseStation.channel ex_station < 16"
    by (simp_all add: ex_first_eq ex_second_eq ex_station_def filled_def)
  from angle_model_formula [OF h] obtain result where
    r: "BaseStation_process ex_first ex_second ex_station = Inr result"
      "Angles.channel result = BaseStation.channel ex_station"
      "data result =
         map (\<lambda>i. Some (spec_angle_pair (offset (the (sensors ex_first ! i)))
               (offset (the (sensors ex_second ! i))) (PERIODS ! nat (BaseStation.channel ex_station))))
             [0, 1, 2, 3]"
    by blast
  have "nat (BaseStation.channel ex_station) = 3" by (simp add: ex_station_def)
  with r(3) have "data result =
               [Some (spec_angle_pair 400 100400 (PERIODS ! 3)),
                Some (spec_angle_pair 404 100404 (PERIODS ! 3)),
                Some (spec_angle_pair 408 100408 (PERIODS ! 3)),
                Some (spec_angle_pair 412 100412 (PERIODS ! 3))]"
    by (simp add: ex_first_eq ex_second_eq SweepData_init_def)
  moreover from r(2) have "Angles.channel result = 3" by (simp add: ex_station_def)
  ultimately show ?thesis using h r(1) by blast
qed

section \<open>The beacon tracker\<close>

lemma is_second_sweep_finalized:
  assumes "finalized a" "finalized b"
  shows "is_second_sweep a b =
     Inr (\<not> offset (the (sensors a ! 0)) > offset (the (sensors b ! 0))
          \<and> \<not> ts_sub (the (SweepBlock.ts b)) (the (SweepBlock.ts a)) > 220000)"
proof -
  from assms have f: "filled a" "filled b" and t: "SweepBlock.ts a \<noteq> None" "SweepBlock.ts b \<noteq> None"
    by (simp_all add: finalized_def)
  have oa: "sensor_offset a 0 = Inr (offset (the (sensors a ! 0)))"
    and ob: "sensor_offset b 0 = Inr (offset (the (sensors b ! 0)))"
    using filled_sensor_offset [OF f(1), of 0] filled_sensor_offset [OF f(2), of 0] by simp_all
  from t obtain ta tb where "SweepBlock.ts a = Some ta" "SweepBlock.ts b = Some tb" by blast
  then show ?thesis
    by (simp add: is_second_sweep_def oa ob Let_def)
qed

text \<open>
  Claim C1. A tracker (channel in 0..15) holds a pending finalized block; a second
  finalized block of the same channel is pushed, the sensor-0 offset of the pending block
  is at most that of the new one, and the timestamp delta \<open>ts_sub\<close> is at most 220000.
  Then \<open>push\<close> returns exactly one \<open>Angles\<close> result, the one \<open>BaseStation.process\<close>
  computes from the pair, prints nothing, and leaves the tracker without a pending block.
\<close>

theorem second_sweep_emits:
  assumes "prev_block self = Some prev" "finalized prev" "finalized blk"
    and "SweepBlock.channel blk = Some (BaseStation.channel self)"
    and "0 \<le> BaseStation.channel self" "BaseStation.channel self < 16"
    and "offset (the (sensors prev ! 0)) \<le> offset (the (sensors blk ! 0))"
    and "ts_sub (the (SweepBlock.ts blk)) (the (SweepBlock.ts prev)) \<le> 220000"
  shows "\<exists>result. BaseStation_process prev blk self = Inr result
           \<and> BaseStation_push blk self = Inr (Some result, [], self\<lparr>prev_block := None\<rparr>)"
proof -
  from assms(2,3) have f: "filled prev" "filled blk" by (simp_all add: finalized_def)
  have sw: "is_second_sweep prev blk = Inr True"
    using assms(7,8) by (simp add: is_second_sweep_finalized [OF assms(2,3)])
  from BaseStation_process_filled [OF f assms(5,6)] obtain result
    where r: "BaseStation_process prev blk self = Inr result" by blast
  then have "BaseStation_push blk self = Inr (Some result, [], self\<lparr>prev_block := None\<rparr>)"
    using assms(1,4) sw by (simp add: BaseStation_push_def)
  with r show ?thesis by blast
qed

theorem second_sweep_emits_witness:
  "prev_block ex_station = Some ex_first \<and> finalized ex_first \<and> finalized ex_second
   \<and> SweepBlock.channel ex_second = Some (BaseStation.channel ex_station)
   \<and> 0 \<le> BaseStation.channel ex_station \<and> BaseStation.channel ex_station < 16
   \<and> offset (the (sensors ex_first ! 0)) \<le> offset (the (sensors ex_second ! 0))
   \<and> ts_sub (the (SweepBlock.ts ex_second)) (the (SweepBlock.ts ex_first)) \<le> 220000
   \<and> (\<exists>result. BaseStation_process ex_first ex_second ex_station = Inr result
         \<and> BaseStation_push ex_second ex_station
             = Inr (Some result, [], ex_station\<lparr>prev_block := None\<rparr>))"
proof -
  have h: "prev_block ex_station = Some ex_first" "finalized ex_first" "finalized ex_second"
    "SweepBlock.channel ex_second = Some (BaseStation.channel ex_station)"
    "0 \<le> BaseStation.channel ex_station" "BaseStation.channel ex_station < 16"
    "offset (the (sensors ex_first ! 0)) \<le> offset (the (sensors ex_second ! 0))"
    "ts_sub (the (SweepBlock.ts ex_second)) (the (SweepBlock.ts ex_first)) \<le> 220000"
    by (simp_all add: ex_first_eq ex_second_eq ex_station_def finalized_def filled_def
        SweepData_init_def ts_sub_def)
  from second_sweep_emits [OF h] h show ?thesis by blast
qed

text \<open>
  Claim C6. A tracker holds a pending finalized block and a finalized block of the same
  channel is pushed that violates a bound: the pending sensor-0 offset is greater than
  the new one, or the timestamp delta is greater than 220000. Then \<open>push\<close> returns
  nothing, prints nothing, and the pending block is the pushed block: the old one is
  gone.
\<close>

theorem stale_first_sweep_replaced:
  assumes "prev_block self = Some prev" "finalized prev" "finalized blk"
    and "SweepBlock.channel blk = Some (BaseStation.channel self)"
    and "offset (the (sensors prev ! 0)) > offset (the (sensors blk ! 0))
         \<or> ts_sub (the (SweepBlock.ts blk)) (the (SweepBlock.ts prev)) > 220000"
  shows "BaseStation_push blk self = Inr (None, [], self\<lparr>prev_block := Some blk\<rparr>)"
proof -
  have "is_second_sweep prev blk = Inr False"
    using assms(5) by (auto simp: is_second_sweep_finalized [OF assms(2,3)])
  then show ?thesis
    using assms(1,4) by (simp add: BaseStation_push_def)
qed

theorem stale_first_sweep_replaced_witness:
  "prev_block ex_station = Some ex_first \<and> finalized ex_first \<and> finalized ex_third
   \<and> SweepBlock.channel ex_third = Some (BaseStation.channel ex_station)
   \<and> ts_sub (the (SweepBlock.ts ex_third)) (the (SweepBlock.ts ex_first)) > 220000
   \<and> BaseStation_push ex_third ex_station = Inr (None, [], ex_station\<lparr>prev_block := Some ex_third\<rparr>)
   \<and> prev_block ex_station_late = Some ex_second \<and> finalized ex_second
   \<and> SweepBlock.channel ex_first = Some (BaseStation.channel ex_station_late)
   \<and> offset (the (sensors ex_second ! 0)) > offset (the (sensors ex_first ! 0))
   \<and> BaseStation_push ex_first ex_station_late
       = Inr (None, [], ex_station_late\<lparr>prev_block := Some ex_first\<rparr>)"
proof -
  have h1: "prev_block ex_station = Some ex_first" "finalized ex_first" "finalized ex_third"
    "SweepBlock.channel ex_third = Some (BaseStation.channel ex_station)"
    and t: "ts_sub (the (SweepBlock.ts ex_third)) (the (SweepBlock.ts ex_first)) > 220000"
    by (simp_all add: ex_first_eq ex_third_eq ex_station_def finalized_def filled_def ts_sub_def)
  have h2: "prev_block ex_station_late = Some ex_second" "finalized ex_second" "finalized ex_first"
    "SweepBlock.channel ex_first = Some (BaseStation.channel ex_station_late)"
    and o: "offset (the (sensors ex_second ! 0)) > offset (the (sensors ex_first ! 0))"
    by (simp_all add: ex_first_eq ex_second_eq ex_station_late_def finalized_def filled_def
        SweepData_init_def)
  from t have d1: "offset (the (sensors ex_first ! 0)) > offset (the (sensors ex_third ! 0))
         \<or> ts_sub (the (SweepBlock.ts ex_third)) (the (SweepBlock.ts ex_first)) > 220000" by blast
  from o have d2: "offset (the (sensors ex_second ! 0)) > offset (the (sensors ex_first ! 0))
         \<or> ts_sub (the (SweepBlock.ts ex_first)) (the (SweepBlock.ts ex_second)) > 220000" by blast
  from stale_first_sweep_replaced [OF h1 d1] stale_first_sweep_replaced [OF h2 d2] h1 h2 t o
  show ?thesis by blast
qed

section \<open>The sweep aggregator\<close>

lemma SweepBlock_push_in_range:
  assumes "0 \<le> sensor" "sensor < 4" "length (sensors b) = 4"
  shows "SweepBlock_push sensor t w off ch sb b =
           (if sensors b ! nat sensor \<noteq> None then Inr (False, b)
            else Inr (True, b\<lparr>sensors := (sensors b)[nat sensor := Some (SweepData_init t w off ch sb)]\<rparr>))"
  using assms by (simp add: SweepBlock_push_def py_index_def)

lemma SweepBlock_push_init:
  assumes "0 \<le> sensor" "sensor < 4"
  shows "SweepBlock_push sensor t w off ch sb SweepBlock_init =
           Inr (True, SweepBlock_init\<lparr>sensors :=
                  [None, None, None, None][nat sensor := Some (SweepData_init t w off ch sb)]\<rparr>)"
proof -
  have "nat sensor < 4" using assms by simp
  then have "[None, None, None, None :: SweepData option] ! nat sensor = None"
    by (auto simp: nth_Cons split: nat.splits)
  then show ?thesis
    using assms by (simp add: SweepBlock_push_in_range SweepBlock_init_def)
qed

lemma PulseProcessor_push_latest:
  "latest_pulse (snd (snd (PulseProcessor_push sensor t w off ch sb self))) = t"
  by (auto simp: PulseProcessor_push_def Let_def split: prod.splits option.splits sum.splits bool.splits if_splits)

lemma PulseProcessor_push_flush:
  assumes "0 \<le> sensor" "sensor < 4"
    and "ts_sub t (latest_pulse self) > 10000" "block self = Some b"
  shows "PulseProcessor_push sensor t w off ch sb self =
     (Inr (if fst (process b) then Some (snd (process b)) else None), [],
      \<lparr>block = Some (SweepBlock_init\<lparr>sensors :=
                  [None, None, None, None][nat sensor := Some (SweepData_init t w off ch sb)]\<rparr>),
       latest_pulse = t\<rparr>)"
  using assms
  by (simp add: PulseProcessor_push_def Let_def SweepBlock_push_init split: prod.splits)

lemma PulseProcessor_push_keep:
  assumes "0 \<le> sensor" "sensor < 4"
    and "\<not> ts_sub t (latest_pulse self) > 10000 \<or> block self = None"
    and "\<forall>b. block self = Some b \<longrightarrow> length (sensors b) = 4"
  shows "fst (PulseProcessor_push sensor t w off ch sb self) = Inr None"
proof (cases "block self")
  case None
  then show ?thesis
    using assms(1,2)
    by (simp add: PulseProcessor_push_def Let_def SweepBlock_push_init)
next
  case (Some b)
  with assms(3) have d: "\<not> ts_sub t (latest_pulse self) > 10000" by simp
  from Some assms(4) have len: "length (sensors b) = 4" by simp
  show ?thesis
    using Some d assms(1,2)
    by (simp add: PulseProcessor_push_def Let_def SweepBlock_push_in_range [OF assms(1,2) len])
qed

text \<open>
  Claim C8. In every call of \<open>PulseProcessor.push\<close> the latest pulse timestamp becomes
  the event's timestamp. For a sensor index in 0..3 and an open block of four slots: a
  block is returned if and only if the delta \<open>ts_sub\<close> to the latest pulse is greater
  than 10000, a block was open and its \<open>process\<close> succeeds, and the block returned is
  the processed one; if \<open>process\<close> fails, nothing is returned, nothing is printed, and
  the open block is replaced by a new block that holds the event alone.
\<close>

theorem aggregator_push:
  assumes "PulseProcessor_push sensor t w off ch sb self = (res, out, self')"
  shows "latest_pulse self' = t \<and>
     (0 \<le> sensor \<and> sensor < 4 \<and> (\<forall>b. block self = Some b \<longrightarrow> length (sensors b) = 4) \<longrightarrow>
        ((\<exists>blk. res = Inr (Some blk)) \<longleftrightarrow>
           (ts_sub t (latest_pulse self) > 10000 \<and> (\<exists>b. block self = Some b \<and> fst (process b))))
        \<and> (\<forall>b. ts_sub t (latest_pulse self) > 10000 \<and> block self = Some b \<and> fst (process b) \<longrightarrow>
              res = Inr (Some (snd (process b))))
        \<and> (\<forall>b. ts_sub t (latest_pulse self) > 10000 \<and> block self = Some b \<and> \<not> fst (process b) \<longrightarrow>
              res = Inr None \<and> out = []
              \<and> block self' = Some (SweepBlock_init\<lparr>sensors :=
                  [None, None, None, None][nat sensor := Some (SweepData_init t w off ch sb)]\<rparr>)))"
proof -
  have lp: "latest_pulse self' = t"
    using PulseProcessor_push_latest [of sensor t w off ch sb self] assms by simp
  have rest: "((\<exists>blk. res = Inr (Some blk)) \<longleftrightarrow>
           (ts_sub t (latest_pulse self) > 10000 \<and> (\<exists>b. block self = Some b \<and> fst (process b))))
        \<and> (\<forall>b. ts_sub t (latest_pulse self) > 10000 \<and> block self = Some b \<and> fst (process b) \<longrightarrow>
              res = Inr (Some (snd (process b))))
        \<and> (\<forall>b. ts_sub t (latest_pulse self) > 10000 \<and> block self = Some b \<and> \<not> fst (process b) \<longrightarrow>
              res = Inr None \<and> out = []
              \<and> block self' = Some (SweepBlock_init\<lparr>sensors :=
                  [None, None, None, None][nat sensor := Some (SweepData_init t w off ch sb)]\<rparr>))"
    if r: "0 \<le> sensor" "sensor < 4" and len: "\<forall>b. block self = Some b \<longrightarrow> length (sensors b) = 4"
  proof (cases "ts_sub t (latest_pulse self) > 10000 \<and> block self \<noteq> None")
    case True
    then obtain b where b: "block self = Some b" and d: "ts_sub t (latest_pulse self) > 10000"
      by blast
    from PulseProcessor_push_flush [OF r d b, of w off ch sb] assms
    have "res = Inr (if fst (process b) then Some (snd (process b)) else None)" "out = []"
      "block self' = Some (SweepBlock_init\<lparr>sensors :=
                  [None, None, None, None][nat sensor := Some (SweepData_init t w off ch sb)]\<rparr>)"
      by simp_all
    with b d show ?thesis by auto
  next
    case False
    then have "\<not> ts_sub t (latest_pulse self) > 10000 \<or> block self = None" by blast
    from PulseProcessor_push_keep [OF r this len, of w off ch sb] assms
    have "res = Inr None" by simp
    with False show ?thesis by auto
  qed
  from lp rest show ?thesis by blast
qed

theorem aggregator_push_witness:
  "PulseProcessor_push 0 100100 20 100400 (Some 3) (Some 1) ex_processor
     = (Inr (Some ex_first), [],
        \<lparr>block = Some (SweepBlock_init\<lparr>sensors :=
            [Some (SweepData_init 100100 20 100400 (Some 3) (Some 1)), None, None, None]\<rparr>),
         latest_pulse = 100100\<rparr>)
   \<and> ts_sub 100100 (latest_pulse ex_processor) > 10000
   \<and> fst (process ex_block_ok)
   \<and> fst (PulseProcessor_push 0 100100 20 100400 (Some 3) (Some 1) ex_processor_bad) = Inr None
   \<and> fst (snd (PulseProcessor_push 0 100100 20 100400 (Some 3) (Some 1) ex_processor_bad)) = []
   \<and> \<not> fst (process ex_block_missing)"
proof -
  obtain res out self' where p:
    "PulseProcessor_push 0 100100 20 100400 (Some 3) (Some 1) ex_processor = (res, out, self')"
    by (metis prod_cases3)
  obtain res2 out2 self2 where p2:
    "PulseProcessor_push 0 100100 20 100400 (Some 3) (Some 1) ex_processor_bad = (res2, out2, self2)"
    by (metis prod_cases3)
  have pre: "(0::int) \<le> 0 \<and> (0::int) < 4
      \<and> (\<forall>b. block ex_processor = Some b \<longrightarrow> length (sensors b) = 4)"
    and pre2: "(0::int) \<le> 0 \<and> (0::int) < 4
      \<and> (\<forall>b. block ex_processor_bad = Some b \<longrightarrow> length (sensors b) = 4)"
    by (simp_all add: ex_processor_def ex_processor_bad_def ex_block_ok_def ex_block_missing_def
        SweepBlock_init_def)
  have d: "ts_sub 100100 (latest_pulse ex_processor) > 10000"
    and d2: "ts_sub 100100 (latest_pulse ex_processor_bad) > 10000"
    by (simp_all add: ex_processor_def ex_processor_bad_def ts_sub_def)
  have ok: "fst (process ex_block_ok)" and bad: "\<not> fst (process ex_block_missing)"
    by (simp_all add: ex_block_ok_def ex_block_missing_def ex_eval)
  have b: "block ex_processor = Some ex_block_ok" "block ex_processor_bad = Some ex_block_missing"
    by (simp_all add: ex_processor_def ex_processor_bad_def)
  from aggregator_push [OF p] pre d ok b
  have "res = Inr (Some (snd (process ex_block_ok)))" "latest_pulse self' = 100100"
    by blast+
  moreover from aggregator_push [OF p2] pre2 d2 bad b
  have "res2 = Inr None" "out2 = []"
    by blast+
  moreover have "PulseProcessor_push 0 100100 20 100400 (Some 3) (Some 1) ex_processor
     = (Inr (Some ex_first), [],
        \<lparr>block = Some (SweepBlock_init\<lparr>sensors :=
            [Some (SweepData_init 100100 20 100400 (Some 3) (Some 1)), None, None, None]\<rparr>),
         latest_pulse = 100100\<rparr>)"
    by (simp add: ex_processor_def ex_block_ok_def ex_first_eq PulseProcessor_push_def
        SweepBlock_push_def py_index_def ex_eval Let_def)
  ultimately show ?thesis using p p2 d ok bad by simp
qed

section \<open>Blocks handed to the trackers\<close>

lemma decode_frame_chan_ok:
  "decode_frame reading = (sensor, t, w, off, ch, sb, o6) \<Longrightarrow> chan_ok ch"
proof -
  assume d: "decode_frame reading = (sensor, t, w, off, ch, sb, o6)"
  define z where "z = drop_bit 2 (unpack_I (take 3 reading @ [0])) AND 31"
  have "0 \<le> z" by (simp add: z_def and_nonnegative_int_iff)
  moreover have "z \<le> 31" unfolding z_def by (rule AND_upper2) simp
  ultimately have "0 \<le> z div 2 \<and> z div 2 < 16" by arith
  then have "0 \<le> drop_bit 1 z \<and> drop_bit 1 z < 16" by (simp add: drop_bit_eq_div)
  with d show ?thesis
    by (auto simp: decode_frame_def Let_def chan_ok_def z_def split: if_splits)
qed

lemma open_ok_init: "open_ok SweepBlock_init"
  by (simp add: open_ok_def SweepBlock_init_def slot_ok_def)

lemma open_ok_push:
  assumes "open_ok b" "chan_ok ch" "SweepBlock_push s t w off ch sb b = Inr (True, b')"
  shows "open_ok b'"
  using assms
  by (auto simp: open_ok_def SweepBlock_push_def slot_ok_def SweepData_init_def list_all_iff
      split: option.splits if_splits dest!: set_update_subset_insert [THEN subsetD])

lemma pp_inv_push:
  assumes "pp_inv pp" "chan_ok ch"
  shows "pp_inv (snd (snd (PulseProcessor_push s t w off ch sb pp)))"
proof -
  define result_self1 where "result_self1 =
     (if ts_sub t (latest_pulse pp) > 10000
      then (case block pp of
              Some blk \<Rightarrow> (let (ok, blk1) = process blk
                         in (if ok then Some blk1 else None, pp\<lparr>block := None\<rparr>))
            | None \<Rightarrow> (None, pp))
      else (None, pp))"
  define self1 where "self1 = snd result_self1"
  have i1: "pp_inv self1"
    using assms(1)
    by (auto simp: self1_def result_self1_def pp_inv_def split: option.splits prod.splits)
  define blk0 where "blk0 = (case block self1 of None \<Rightarrow> SweepBlock_init | Some blk \<Rightarrow> blk)"
  have o0: "open_ok blk0"
    using i1 by (auto simp: blk0_def pp_inv_def open_ok_init split: option.splits)
  have "PulseProcessor_push s t w off ch sb pp =
      (case SweepBlock_push s t w off ch sb blk0 of
           Inl e \<Rightarrow> (Inl e, [], self1\<lparr>latest_pulse := t, block := Some blk0\<rparr>)
         | Inr (True, blk2) \<Rightarrow> (Inr (fst result_self1), [], self1\<lparr>latest_pulse := t, block := Some blk2\<rparr>)
         | Inr (False, blk2) \<Rightarrow> (Inr (fst result_self1), [''Drop block''], self1\<lparr>latest_pulse := t, block := None\<rparr>))"
    by (simp add: PulseProcessor_push_def Let_def blk0_def self1_def result_self1_def
        split: prod.splits sum.splits bool.splits)
  then show ?thesis
    using o0 open_ok_push [OF o0 assms(2), of s t w off sb]
    by (auto simp: pp_inv_def split: sum.splits bool.splits prod.splits)
qed

lemma backfill_identity:
  "SweepData.channel (backfill r d) = SweepData.channel d"
  "SweepData.slow_bit (backfill r d) = SweepData.slow_bit d"
  by (simp_all add: backfill_def Let_def)

lemma process_offsets_resolved:
  assumes ap: "all_present (sensors b)"
    and cl: "channel_loop (map the (sensors b)) 0 (SweepBlock.channel b) (SweepBlock.slow_bit b)
               = (True, 3, ch, sb)"
    and r: "filter (\<lambda>d. offset d \<noteq> 0) (map the (sensors b)) = [r]"
  shows "offsets_resolved (snd (process b))"
proof -
  define ss2 where "ss2 = map (\<lambda>sensor. sensor\<lparr>SweepData.channel := ch, SweepData.slow_bit := sb\<rparr>)
                 (map the (sensors b))"
  define ref where "ref = r\<lparr>SweepData.channel := ch, SweepData.slow_bit := sb\<rparr>"
  note pe = process_eq [OF ap cl r ss2_def ref_def]
  have f2: "filter (\<lambda>d. offset d \<noteq> 0) ss2 = [ref]"
    unfolding ss2_def ref_def filter_offset_set_identity r by simp
  then have "ref \<in> set (filter (\<lambda>d. offset d \<noteq> 0) ss2)" by simp
  then have rin: "ref \<in> set ss2" and rnz: "offset ref \<noteq> 0" by simp_all
  from rnz have bref: "backfill ref ref = ref" by (simp add: backfill_def)
  from rin bref have mem: "ref \<in> set (map (backfill ref) ss2)" by force
  have each: "backfill ref d = ref
              \<or> offset (backfill ref d) =
                  ts_add (offset ref) (ts_sub (SweepData.ts (backfill ref d)) (SweepData.ts ref))"
    if d: "d \<in> set ss2" for d
  proof (cases "offset d = 0")
    case True
    then show ?thesis by (simp add: backfill_def Let_def)
  next
    case False
    with d have "d \<in> set (filter (\<lambda>d. offset d \<noteq> 0) ss2)" by simp
    with f2 have "d = ref" by simp
    with bref show ?thesis by simp
  qed
  have "list_all (\<lambda>s. s = Some ref
            \<or> offset (the s) = ts_add (offset ref) (ts_sub (SweepData.ts (the s)) (SweepData.ts ref)))
          (map Some (map (backfill ref) ss2))"
    using each by (auto simp: list_all_iff)
  moreover from mem have "Some ref \<in> set (map Some (map (backfill ref) ss2))"
    by (simp del: map_map)
  ultimately show ?thesis
    using rnz by (simp add: pe offsets_resolved_def del: map_map)
qed

lemma process_block_valid:
  assumes ok: "fst (process b)" and op: "open_ok b"
  shows "block_valid (snd (process b))"
proof -
  note d = process_True_D [OF ok]
  from op have len: "length (sensors b) = 4" and fresh: "SweepBlock.channel b = None"
    and slots: "list_all slot_ok (sensors b)"
    by (simp_all add: open_ok_def)
  define ss where "ss = map the (sensors b)"
  obtain n ch sb where cl:
    "channel_loop ss 0 (SweepBlock.channel b) (SweepBlock.slow_bit b) = (True, n, ch, sb)"
    using d(2) unfolding ss_def by (metis fst_conv prod_cases4)
  with channel_loop_count [OF d(2)] d(3) have n: "n = 3" by (simp add: ss_def)
  from length_one [OF d(4)] obtain r
    where r: "filter (\<lambda>d. offset d \<noteq> 0) (map the (sensors b)) = [r]"
    by blast
  note pe = process_eq [OF d(1) cl [unfolded n ss_def] r refl refl]
  \<comment> \<open>the resolved channel is the channel of a decoded sensor\<close>
  have "length (filter (\<lambda>d. SweepData.channel d \<noteq> None) ss) = 3"
    unfolding ss_def by (rule d(3))
  then have "filter (\<lambda>d. SweepData.channel d \<noteq> None) ss \<noteq> []"
    by (metis length_0_conv zero_neq_numeral)
  then obtain d0 where d0: "d0 \<in> set ss" "SweepData.channel d0 \<noteq> None"
    by (metis (mono_tags, lifting) filter_False)
  from channel_loop_agree [OF d(2)] d0 cl have chd: "SweepData.channel d0 = ch"
    by (auto simp: ss_def)
  from d0(1) d(1) have "Some d0 \<in> set (sensors b)"
    unfolding ss_def by (rule in_map_the [rotated])
  with slots have "slot_ok (Some d0)" by (simp add: list_all_iff)
  with chd d0(2) have range: "case ch of None \<Rightarrow> False | Some c \<Rightarrow> 0 \<le> c \<and> c < 16"
    by (auto simp: slot_ok_def chan_ok_def split: option.splits)
  note res = process_offsets_resolved [OF d(1) cl [unfolded n ss_def] r]
  have "is_valid (snd (process b))" "length (sensors (snd (process b))) = 4"
    "all_present (sensors (snd (process b)))"
    "list_all (\<lambda>s. SweepData.channel (the s) = SweepBlock.channel (snd (process b))
                    \<and> SweepData.slow_bit (the s) = SweepBlock.slow_bit (snd (process b)))
       (sensors (snd (process b)))"
    "case SweepBlock.channel (snd (process b)) of None \<Rightarrow> False | Some c \<Rightarrow> 0 \<le> c \<and> c < 16"
    using len range
    by (simp_all add: pe all_present_map_Some list_all_iff backfill_identity)
  with res show ?thesis
    by (simp add: block_valid_def)
qed

lemma PulseProcessor_push_result:
  assumes "fst (PulseProcessor_push s t w off ch sb pp) = Inr (Some blk)"
  shows "\<exists>b. block pp = Some b \<and> fst (process b) \<and> blk = snd (process b)"
  using assms
  by (auto simp: PulseProcessor_push_def Let_def
      split: if_splits option.splits prod.splits sum.splits bool.splits)

lemma PulseProcessor_push_valid:
  assumes "pp_inv pp" "fst (PulseProcessor_push s t w off ch sb pp) = Inr (Some blk)"
  shows "block_valid blk"
proof -
  from PulseProcessor_push_result [OF assms(2)] obtain b
    where b: "block pp = Some b" "fst (process b)" "blk = snd (process b)" by blast
  from assms(1) b(1) have "open_ok b" by (simp add: pp_inv_def)
  with b(2,3) show ?thesis by (simp add: process_block_valid)
qed

lemma main_step_ok:
  assumes "script_ok st"
  shows "script_ok (snd (main_step reading st))"
proof -
  obtain sensor t w off ch sb o6 where dec: "decode_frame reading = (sensor, t, w, off, ch, sb, o6)"
    by (metis prod_cases7)
  note c = decode_frame_chan_ok [OF dec]
  obtain res out pp where push:
    "PulseProcessor_push sensor t w off ch sb (pulse_processor st) = (res, out, pp)"
    by (metis prod_cases3)
  from assms have inv: "pp_inv (pulse_processor st)" and vs: "list_all block_valid (pushed_blocks st)"
    by (simp_all add: script_ok_def)
  from pp_inv_push [OF inv c, of sensor t w off sb] push have inv': "pp_inv pp" by simp
  have v: "block_valid blk" if "res = Inr (Some blk)" for blk
    using PulseProcessor_push_valid [OF inv, of sensor t w off ch sb blk] push that by simp
  show ?thesis
    using assms inv' vs v
    by (auto simp: main_step_def dec push script_ok_def Let_def
        split: sum.splits option.splits prod.splits)
qed

lemma main_loop_ok:
  "script_ok st \<Longrightarrow> script_ok (snd (main_loop readings st))"
proof (induction readings arbitrary: st)
  case Nil
  then show ?case by simp
next
  case (Cons reading rest)
  from main_step_ok [OF Cons.prems] have s: "script_ok (snd (main_step reading st))" .
  show ?case
  proof (cases "main_step reading st")
    case (Pair e st1)
    with s have s1: "script_ok st1" by simp
    from Cons.IH [OF s1] Cons.prems s1 Pair show ?thesis
      by (auto split: option.splits)
  qed
qed

lemma script_init_ok: "script_ok script_init"
  by (simp add: script_ok_def script_init_def pp_inv_def PulseProcessor_init_def)

text \<open>
  Claim C10 as stated asks every sensor of a block handed on to carry a defined offset.
  The frame loop hands on this block, built from five frames: its reference offset is
  16777212 and sensor 1, four ticks later, is back-filled to 0, the value the source
  tests as no offset (\<^verbatim>\<open>if sensor.offset\<close>).
\<close>

theorem backfilled_offset_zero:
  "pushed_blocks (snd (main_loop ex_frames_wrap script_init)) = [ex_wrapped]
   \<and> is_valid ex_wrapped
   \<and> offset (the (sensors ex_wrapped ! 0)) = 16777212
   \<and> offset (the (sensors ex_wrapped ! 1)) = 0
   \<and> \<not> has_offset (sensors ex_wrapped ! 1)"
  by (simp add: ex_wrapped_def ex_block_wrap_def ex_frames_wrap_def script_eval)

text \<open>
  Claim C10, amended. Whatever chunks the frame loop reads, every block that
  \<open>pulse_processor.push\<close> returns in it is valid: marked valid, four slots filled, every
  sensor with the block's channel and slow bit, the resolved channel one of 0..15, and
  the offsets resolved: the reference sensor is one of the four and its offset is
  nonzero, and the offset of every other sensor is \<open>ts_add\<close> of the reference offset
  and the timestamp delta to the reference sensor, a value in \<open>0 ..< 2^24\<close> that can
  be 0. The list of base stations keeps its 16 entries, so
  \<open>base_stations[block.channel]\<close> is in bounds.
\<close>

theorem pushed_blocks_valid:
  "list_all block_valid (pushed_blocks (snd (main_loop readings script_init)))
   \<and> length (base_stations (snd (main_loop readings script_init))) = 16"
  using main_loop_ok [OF script_init_ok, of readings] by (simp add: script_ok_def)

theorem pushed_blocks_valid_witness:
  "list_all block_valid (pushed_blocks (snd (main_loop ex_frames script_init)))
   \<and> pushed_blocks (snd (main_loop ex_frames script_init)) = [ex_first]
   \<and> fst (main_loop ex_frames script_init) = None
   \<and> block_valid ex_first \<and> offsets_resolved ex_first
   \<and> offset_sensor ex_first = Some (SweepData_init 100 20 400 (Some 3) (Some 1))
   \<and> offset (the (sensors ex_first ! 1)) = ts_add 400 (ts_sub 104 100)"
proof -
  have run: "pushed_blocks (snd (main_loop ex_frames script_init)) = [ex_first]"
    by (simp add: ex_frames_def ex_first_eq script_eval)
  have "fst (main_loop ex_frames script_init) = None"
    by (simp add: ex_frames_def ex_first_eq script_eval)
  moreover from pushed_blocks_valid [of ex_frames] run have v: "block_valid ex_first"
    by simp
  moreover from v have "offsets_resolved ex_first" by (simp add: block_valid_def)
  moreover have "offset_sensor ex_first = Some (SweepData_init 100 20 400 (Some 3) (Some 1))"
    "offset (the (sensors ex_first ! 1)) = ts_add 400 (ts_sub 104 100)"
    by (simp_all add: ex_first_eq SweepData_init_def ts_add_def ts_sub_def)
  ultimately show ?thesis
    using pushed_blocks_valid [of ex_frames] run by simp
qed

section \<open>The block timestamp\<close>

text \<open>
  Claim C5 asks for the numeric minimum of the four sensor timestamps. On the block with
  timestamps 0, 5, 7, 9 the source's loop (\<^verbatim>\<open>if not self.ts\<close> is also true for a
  timestamp of 0) leaves 5 as the block timestamp; the frame loop builds and returns
  exactly this block from five frames.
\<close>

theorem process_ts_skips_zero:
  "map (\<lambda>s. SweepData.ts (the s)) (sensors ex_block_zero_ts) = [0, 5, 7, 9]
   \<and> fst (process ex_block_zero_ts)
   \<and> SweepBlock.ts (snd (process ex_block_zero_ts)) = Some 5
   \<and> pushed_blocks (snd (main_loop ex_frames_zero script_init)) = [snd (process ex_block_zero_ts)]"
  by (simp add: ex_block_zero_ts_def ex_frames_zero_def script_eval)

end
